theory Spec2Isabelle
  imports Complex_Main "HOL-Library.AList"
begin

section \<open>Python values used by the schema and metadata managers\<close>

text \<open>
  Strings are \<^typ>\<open>string\<close>, that is lists of 8-bit characters: the model covers ASCII text.
  Python's \<^verbatim>\<open>str.upper\<close> and \<^verbatim>\<open>str.lower\<close> are modelled on the letters a-z and A-Z;
  every other character is left as it is.
\<close>

definition lower_letters :: string where
  "lower_letters = ''abcdefghijklmnopqrstuvwxyz''"

definition upper_letters :: string where
  "upper_letters = ''ABCDEFGHIJKLMNOPQRSTUVWXYZ''"

definition upper_char :: "char \<Rightarrow> char" where
  "upper_char c = (case map_of (zip lower_letters upper_letters) c of None \<Rightarrow> c | Some u \<Rightarrow> u)"

definition lower_char :: "char \<Rightarrow> char" where
  "lower_char c = (case map_of (zip upper_letters lower_letters) c of None \<Rightarrow> c | Some l \<Rightarrow> l)"

definition upper :: "string \<Rightarrow> string" where
  "upper s = map upper_char s"

definition lower :: "string \<Rightarrow> string" where
  "lower s = map lower_char s"

text \<open>\<^verbatim>\<open>s.startswith(p)\<close> and the substring test \<^verbatim>\<open>sub in s\<close>.\<close>

fun startswith :: "string \<Rightarrow> string \<Rightarrow> bool" where
  "startswith s [] = True"
| "startswith [] (p # ps) = False"
| "startswith (c # cs) (p # ps) = (c = p \<and> startswith cs ps)"

fun py_in :: "string \<Rightarrow> string \<Rightarrow> bool" where
  "py_in sub [] = (sub = [])"
| "py_in sub (c # cs) = (startswith (c # cs) sub \<or> py_in sub cs)"

text \<open>
  \<^verbatim>\<open>s.split(sep)\<close> for a non-empty separator: the string is scanned from the left, every
  occurrence of the separator closes the current piece, and the scan goes on behind it.
  (Python raises ValueError for an empty separator; the managers only split on the
  literals \<^verbatim>\<open>": "\<close>, \<^verbatim>\<open>" "\<close> and \<^verbatim>\<open>" -> "\<close>, and here an empty separator never matches.)
\<close>

function split_from :: "string \<Rightarrow> string \<Rightarrow> string \<Rightarrow> string list" where
  "split_from sep piece [] = [piece]"
| "split_from sep piece (c # cs) =
     (if sep \<noteq> [] \<and> startswith (c # cs) sep
      then piece # split_from sep [] (drop (length sep) (c # cs))
      else split_from sep (piece @ [c]) cs)"
  by pat_completeness auto
termination
  by (relation "measure (\<lambda>(sep, piece, s). length s)") auto

definition split :: "string \<Rightarrow> string \<Rightarrow> string list" where
  "split s sep = split_from sep [] s"

text \<open>\<^verbatim>\<open>sep.join(xs)\<close>.\<close>

fun join :: "string \<Rightarrow> string list \<Rightarrow> string" where
  "join sep [] = []"
| "join sep [x] = x"
| "join sep (x # y # ys) = x @ sep @ join sep (y # ys)"

text \<open>Indexing a list raises IndexError out of range; exceptions are values.\<close>

datatype py_error = IndexError | ValueError

definition index :: "'a list \<Rightarrow> nat \<Rightarrow> py_error + 'a" where
  "index xs i = (if i < length xs then Inr (xs ! i) else Inl IndexError)"

text \<open>
  Values of the attributes annotated \<^verbatim>\<open>Any\<close>, and the nested dictionaries that
  \<^verbatim>\<open>dataclasses.asdict\<close> builds. A dictionary is an association list in insertion order.
  \<^verbatim>\<open>asdict\<close> keeps an Enum member as it is: \<open>PEnum cls member\<close>.
\<close>

datatype pyval =
    PNone
  | PBool bool
  | PInt int
  | PStr string
  | PList "pyval list"
  | PDict "(string \<times> pyval) list"
  | PEnum string string

type_synonym datetime = nat

section \<open>schema_manager.py: the data model\<close>

datatype SchemaType = RELATIONAL | DOCUMENT | KEY_VALUE | GRAPH | TIME_SERIES | COLUMNAR

datatype DataClassification = PUBLIC | INTERNAL | CONFIDENTIAL | RESTRICTED | PII | PHI

text \<open>
  The attribute \<^verbatim>\<open>SchemaField.classification\<close> holds a member of DataClassification when
  the field is built by a caller, and the plain JSON string when the field is rebuilt by
  \<^verbatim>\<open>get_schema\<close> (\<^verbatim>\<open>SchemaField(**field)\<close> converts nothing).
\<close>

datatype ClassificationValue = Member DataClassification | Unconverted string

record SchemaField =
  f_name :: string
  f_data_type :: string
  f_nullable :: bool
  f_primary_key :: bool
  f_foreign_key :: "string option"
  f_unique :: bool
  f_indexed :: bool
  f_default_value :: pyval
  f_description :: "string option"
  f_classification :: ClassificationValue
  f_validation_rules :: "(string \<times> pyval) list"
  f_tags :: "string list"

record SchemaIndex =
  ix_name :: string
  ix_fields :: "string list"
  ix_unique :: bool
  ix_type :: string
  ix_partial_condition :: "string option"
  ix_description :: "string option"

record SchemaRelationship =
  rel_name :: string
  rel_source_schema :: string
  rel_target_schema :: string
  rel_source_field :: string
  rel_target_field :: string
  rel_relationship_type :: string
  rel_cascade_delete :: bool
  rel_cascade_update :: bool

record SchemaVersion =
  v_version :: string
  v_created_at :: datetime
  v_created_by :: string
  v_description :: string
  v_changes :: "string list"
  v_breaking_changes :: bool
  v_rollback_version :: "string option"
  v_approved_by :: "string option"
  v_deployment_date :: "datetime option"

record Schema =
  s_name :: string
  s_version :: string
  s_schema_type :: SchemaType
  s_description :: string
  s_fields :: "SchemaField list"
  s_indexes :: "SchemaIndex list"
  s_relationships :: "SchemaRelationship list"
  s_business_owner :: "string option"
  s_technical_owner :: "string option"
  s_classification :: DataClassification
  s_retention_policy :: "string option"
  s_backup_policy :: "string option"
  s_tags :: "string list"
  s_metadata :: "(string \<times> pyval) list"

section \<open>The breaking-change detector\<close>

text \<open>
  \<^verbatim>\<open>{f.name: f for f in fields}\<close>: a Python dict keeps every key at the position of its
  first insertion and the value of its last one, which is what \<^const>\<open>AList.update\<close> does.
\<close>

definition field_dict :: "SchemaField list \<Rightarrow> (string \<times> SchemaField) list" where
  "field_dict fs = fold (\<lambda>f d. AList.update (f_name f) f d) fs []"

text \<open>The first loop of \<^verbatim>\<open>_detect_breaking_changes\<close>: removed fields.\<close>

definition removed_fields ::
  "(string \<times> SchemaField) list \<Rightarrow> (string \<times> SchemaField) list \<Rightarrow> string list" where
  "removed_fields old_fields new_fields =
     concat (map (\<lambda>(field_name, old_field).
       if map_of new_fields field_name = None
       then [''Removed field: '' @ field_name] else []) old_fields)"

text \<open>The three tests made on a field present in both schemas, in the source's order.\<close>

definition field_changes :: "string \<Rightarrow> SchemaField \<Rightarrow> SchemaField \<Rightarrow> string list" where
  "field_changes field_name old_field new_field =
     (if f_data_type old_field \<noteq> f_data_type new_field
      then [''Changed data type for field '' @ field_name @ '': ''
              @ f_data_type old_field @ '' -> '' @ f_data_type new_field]
      else [])
     @ (if f_nullable old_field \<and> \<not> f_nullable new_field
        then [''Field '' @ field_name @ '' changed from nullable to non-nullable'']
        else [])
     @ (if \<not> f_primary_key old_field \<and> f_primary_key new_field
        then [''Field '' @ field_name @ '' changed to primary key'']
        else [])"

text \<open>
  The second loop. The source walks the keys of \<^verbatim>\<open>old_fields\<close> and reads
  \<^verbatim>\<open>old_fields[field_name]\<close>; the keys of a dict are distinct, so that is the walk over
  its items.
\<close>

definition changed_fields ::
  "(string \<times> SchemaField) list \<Rightarrow> (string \<times> SchemaField) list \<Rightarrow> string list" where
  "changed_fields old_fields new_fields =
     concat (map (\<lambda>(field_name, old_field).
       case map_of new_fields field_name of
         None \<Rightarrow> []
       | Some new_field \<Rightarrow> field_changes field_name old_field new_field) old_fields)"

definition detect_breaking_changes :: "Schema \<Rightarrow> Schema \<Rightarrow> string list" where
  "detect_breaking_changes old_schema new_schema =
     (let old_fields = field_dict (s_fields old_schema);
          new_fields = field_dict (s_fields new_schema)
      in removed_fields old_fields new_fields @ changed_fields old_fields new_fields)"

section \<open>Schema validation\<close>

text \<open>The table of \<^verbatim>\<open>_is_valid_data_type\<close>, a dict keyed by schema type.\<close>

definition valid_types :: "(SchemaType \<times> string list) list" where
  "valid_types =
     [(RELATIONAL,
        [''INTEGER'', ''BIGINT'', ''SMALLINT'', ''DECIMAL'', ''NUMERIC'', ''REAL'', ''DOUBLE'',
         ''VARCHAR'', ''CHAR'', ''TEXT'', ''BOOLEAN'', ''DATE'', ''TIME'', ''TIMESTAMP'',
         ''UUID'', ''JSON'', ''JSONB'', ''ARRAY'']),
      (DOCUMENT,
        [''STRING'', ''NUMBER'', ''BOOLEAN'', ''DATE'', ''OBJECT'', ''ARRAY'', ''NULL'']),
      (KEY_VALUE,
        [''STRING'', ''HASH'', ''LIST'', ''SET'', ''SORTED_SET'', ''BITMAP'', ''HYPERLOGLOG'']),
      (TIME_SERIES,
        [''TIMESTAMP'', ''DOUBLE'', ''INTEGER'', ''STRING'', ''BOOLEAN'', ''TAG'']),
      (COLUMNAR,
        [''INT32'', ''INT64'', ''FLOAT'', ''DOUBLE'', ''STRING'', ''BOOLEAN'', ''DATE'',
         ''TIMESTAMP''])]"

text \<open>\<^verbatim>\<open>valid_types.get(schema_type, [])\<close>.\<close>

definition whitelist :: "SchemaType \<Rightarrow> string list" where
  "whitelist schema_type =
     (case map_of valid_types schema_type of None \<Rightarrow> [] | Some types \<Rightarrow> types)"

definition is_valid_data_type :: "string \<Rightarrow> SchemaType \<Rightarrow> bool" where
  "is_valid_data_type data_type schema_type = (upper data_type \<in> set (whitelist schema_type))"

record ValidationResult =
  valid :: bool
  errors :: "string list"
  warnings :: "string list"

text \<open>
  One round of the field loop of \<^verbatim>\<open>validate_schema\<close>. The loop state is
  (errors, field_names, primary_keys), the first named \<open>errs\<close> here; the first branch is the \<^verbatim>\<open>continue\<close>.
\<close>

definition validate_field ::
  "SchemaType \<Rightarrow> SchemaField \<Rightarrow> string list \<times> string set \<times> string list
     \<Rightarrow> string list \<times> string set \<times> string list" where
  "validate_field schema_type field st =
     (case st of (errs, field_names, primary_keys) \<Rightarrow>
        if f_name field = [] then (errs @ [''All fields must have a name''], field_names, primary_keys)
        else
          (let errs1 = (if f_name field \<in> field_names
                          then errs @ [''Duplicate field name: '' @ f_name field]
                          else errs);
               field_names1 = insert (f_name field) field_names;
               primary_keys1 = (if f_primary_key field
                                then primary_keys @ [f_name field]
                                else primary_keys);
               errs2 = (if \<not> is_valid_data_type (f_data_type field) schema_type
                          then errs1 @ [''Invalid data type '' @ f_data_type field
                                            @ '' for field '' @ f_name field]
                          else errs1)
           in (errs2, field_names1, primary_keys1)))"

definition index_errors :: "string set \<Rightarrow> SchemaIndex list \<Rightarrow> string list" where
  "index_errors field_names indexes =
     concat (map (\<lambda>index.
       concat (map (\<lambda>field_name.
         if field_name \<notin> field_names
         then [''Index '' @ ix_name index @ '' references non-existent field: '' @ field_name]
         else []) (ix_fields index))) indexes)"

definition relationship_errors :: "string set \<Rightarrow> SchemaRelationship list \<Rightarrow> string list" where
  "relationship_errors field_names relationships =
     concat (map (\<lambda>relationship.
       if rel_source_field relationship \<notin> field_names
       then [''Relationship '' @ rel_name relationship
               @ '' references non-existent source field: '' @ rel_source_field relationship]
       else []) relationships)"

text \<open>\<^verbatim>\<open>f.classification in [DataClassification.PII, DataClassification.PHI]\<close>.\<close>

definition is_sensitive :: "SchemaField \<Rightarrow> bool" where
  "is_sensitive f = (f_classification f = Member PII \<or> f_classification f = Member PHI)"

text \<open>Truth value of an \<^verbatim>\<open>Optional[str]\<close>: None and the empty string are false.\<close>

definition truthy :: "string option \<Rightarrow> bool" where
  "truthy x = (case x of None \<Rightarrow> False | Some s \<Rightarrow> s \<noteq> [])"

definition validate_schema :: "Schema \<Rightarrow> ValidationResult" where
  "validate_schema schema =
     (let errors0 = (if s_name schema = [] then [''Schema name is required''] else []);
          errors1 = (if s_fields schema = []
                     then errors0 @ [''Schema must have at least one field'']
                     else errors0);
          (errors2, field_names, primary_keys) =
             fold (validate_field (s_schema_type schema)) (s_fields schema) (errors1, {}, []);
          warnings1 = (if s_schema_type schema = RELATIONAL \<and> primary_keys = []
                       then [''Relational schema should have a primary key''] else []);
          warnings2 = (if length primary_keys > 1
                       then warnings1 @ [''Multiple primary keys detected, consider composite key design'']
                       else warnings1);
          errors3 = errors2 @ index_errors field_names (s_indexes schema);
          errors4 = errors3 @ relationship_errors field_names (s_relationships schema);
          classified_fields = filter is_sensitive (s_fields schema);
          warnings3 = (if classified_fields \<noteq> [] \<and> \<not> truthy (s_retention_policy schema)
                       then warnings2 @ [''Schema contains sensitive data but no retention policy defined'']
                       else warnings2)
      in \<lparr> valid = (length errors4 = 0), errors = errors4, warnings = warnings3 \<rparr>)"

section \<open>The schema hash\<close>

definition SchemaType_name :: "SchemaType \<Rightarrow> string" where
  "SchemaType_name t = (case t of
       RELATIONAL \<Rightarrow> ''RELATIONAL'' | DOCUMENT \<Rightarrow> ''DOCUMENT'' | KEY_VALUE \<Rightarrow> ''KEY_VALUE''
     | GRAPH \<Rightarrow> ''GRAPH'' | TIME_SERIES \<Rightarrow> ''TIME_SERIES'' | COLUMNAR \<Rightarrow> ''COLUMNAR'')"

definition SchemaType_value :: "SchemaType \<Rightarrow> string" where
  "SchemaType_value t = (case t of
       RELATIONAL \<Rightarrow> ''relational'' | DOCUMENT \<Rightarrow> ''document'' | KEY_VALUE \<Rightarrow> ''key_value''
     | GRAPH \<Rightarrow> ''graph'' | TIME_SERIES \<Rightarrow> ''time_series'' | COLUMNAR \<Rightarrow> ''columnar'')"

definition DataClassification_name :: "DataClassification \<Rightarrow> string" where
  "DataClassification_name c = (case c of
       PUBLIC \<Rightarrow> ''PUBLIC'' | INTERNAL \<Rightarrow> ''INTERNAL'' | CONFIDENTIAL \<Rightarrow> ''CONFIDENTIAL''
     | RESTRICTED \<Rightarrow> ''RESTRICTED'' | PII \<Rightarrow> ''PII'' | PHI \<Rightarrow> ''PHI'')"

definition DataClassification_value :: "DataClassification \<Rightarrow> string" where
  "DataClassification_value c = (case c of
       PUBLIC \<Rightarrow> ''public'' | INTERNAL \<Rightarrow> ''internal'' | CONFIDENTIAL \<Rightarrow> ''confidential''
     | RESTRICTED \<Rightarrow> ''restricted'' | PII \<Rightarrow> ''pii'' | PHI \<Rightarrow> ''phi'')"

definition opt_str :: "string option \<Rightarrow> pyval" where
  "opt_str x = (case x of None \<Rightarrow> PNone | Some s \<Rightarrow> PStr s)"

definition classification_value :: "ClassificationValue \<Rightarrow> pyval" where
  "classification_value c = (case c of
       Member m \<Rightarrow> PEnum ''DataClassification'' (DataClassification_name m)
     | Unconverted s \<Rightarrow> PStr s)"

text \<open>\<^verbatim>\<open>dataclasses.asdict\<close> on the dataclasses of a schema, keys in declaration order.\<close>

definition asdict_field :: "SchemaField \<Rightarrow> pyval" where
  "asdict_field f = PDict
     [(''name'', PStr (f_name f)),
      (''data_type'', PStr (f_data_type f)),
      (''nullable'', PBool (f_nullable f)),
      (''primary_key'', PBool (f_primary_key f)),
      (''foreign_key'', opt_str (f_foreign_key f)),
      (''unique'', PBool (f_unique f)),
      (''indexed'', PBool (f_indexed f)),
      (''default_value'', f_default_value f),
      (''description'', opt_str (f_description f)),
      (''classification'', classification_value (f_classification f)),
      (''validation_rules'', PDict (f_validation_rules f)),
      (''tags'', PList (map PStr (f_tags f)))]"

definition asdict_index :: "SchemaIndex \<Rightarrow> pyval" where
  "asdict_index i = PDict
     [(''name'', PStr (ix_name i)),
      (''fields'', PList (map PStr (ix_fields i))),
      (''unique'', PBool (ix_unique i)),
      (''type'', PStr (ix_type i)),
      (''partial_condition'', opt_str (ix_partial_condition i)),
      (''description'', opt_str (ix_description i))]"

definition asdict_relationship :: "SchemaRelationship \<Rightarrow> pyval" where
  "asdict_relationship r = PDict
     [(''name'', PStr (rel_name r)),
      (''source_schema'', PStr (rel_source_schema r)),
      (''target_schema'', PStr (rel_target_schema r)),
      (''source_field'', PStr (rel_source_field r)),
      (''target_field'', PStr (rel_target_field r)),
      (''relationship_type'', PStr (rel_relationship_type r)),
      (''cascade_delete'', PBool (rel_cascade_delete r)),
      (''cascade_update'', PBool (rel_cascade_update r))]"

definition asdict_schema :: "Schema \<Rightarrow> (string \<times> pyval) list" where
  "asdict_schema s =
     [(''name'', PStr (s_name s)),
      (''version'', PStr (s_version s)),
      (''schema_type'', PEnum ''SchemaType'' (SchemaType_name (s_schema_type s))),
      (''description'', PStr (s_description s)),
      (''fields'', PList (map asdict_field (s_fields s))),
      (''indexes'', PList (map asdict_index (s_indexes s))),
      (''relationships'', PList (map asdict_relationship (s_relationships s))),
      (''business_owner'', opt_str (s_business_owner s)),
      (''technical_owner'', opt_str (s_technical_owner s)),
      (''classification'', PEnum ''DataClassification'' (DataClassification_name (s_classification s))),
      (''retention_policy'', opt_str (s_retention_policy s)),
      (''backup_policy'', opt_str (s_backup_policy s)),
      (''tags'', PList (map PStr (s_tags s))),
      (''metadata'', PDict (s_metadata s))]"

text \<open>
  What the managers take from the Python library and the clock:
  \<^verbatim>\<open>json.dumps(d, sort_keys=True, default=str)\<close>, \<^verbatim>\<open>hashlib.sha256(s.encode()).hexdigest()\<close>,
  the successive readings of \<^verbatim>\<open>datetime.datetime.utcnow()\<close> during one call (numbered
  from 0), and \<^verbatim>\<open>isoformat()\<close>.
\<close>

record Env =
  json_dumps :: "pyval \<Rightarrow> string"
  sha256_hexdigest :: "string \<Rightarrow> string"
  utcnow :: "nat \<Rightarrow> datetime"
  isoformat :: "datetime \<Rightarrow> string"

text \<open>\<^verbatim>\<open>schema_dict.pop("metadata", None)\<close> is \<^const>\<open>AList.delete\<close>.\<close>

definition generate_schema_hash :: "Env \<Rightarrow> Schema \<Rightarrow> string" where
  "generate_schema_hash env schema =
     (let schema_dict = asdict_schema schema;
          schema_dict1 = AList.delete ''metadata'' schema_dict;
          schema_str = json_dumps env (PDict schema_dict1)
      in sha256_hexdigest env schema_str)"

section \<open>The schema store\<close>

text \<open>
  What \<^verbatim>\<open>json.dump(..., default=str)\<close> followed by \<^verbatim>\<open>json.load\<close> makes of a value:
  an Enum member is not JSON, so \<^verbatim>\<open>default=str\<close> writes \<^verbatim>\<open>str(member)\<close>, which is
  \<^verbatim>\<open>"Class.MEMBER"\<close>.
\<close>

fun jsonify :: "pyval \<Rightarrow> pyval" where
  "jsonify PNone = PNone"
| "jsonify (PBool b) = PBool b"
| "jsonify (PInt i) = PInt i"
| "jsonify (PStr s) = PStr s"
| "jsonify (PList xs) = PList (map jsonify xs)"
| "jsonify (PDict kvs) = PDict (map (map_prod id jsonify) kvs)"
| "jsonify (PEnum cls member) = PStr (cls @ ''.'' @ member)"

text \<open>
  A schema definition file \<^verbatim>\<open>definitions/<name>.json\<close>. The model keeps the shape that
  \<^verbatim>\<open>asdict\<close> gives it, so every key of the dataclass is present and has the type of its
  annotation, but the two Enum positions hold whatever string the file holds. A field
  dictionary of the file is a \<^typ>\<open>SchemaField\<close> with an unconverted classification,
  which is also what \<^verbatim>\<open>SchemaField(**field)\<close> rebuilds from it.
\<close>

record SchemaDocument =
  d_name :: string
  d_version :: string
  d_schema_type :: string
  d_description :: string
  d_fields :: "SchemaField list"
  d_indexes :: "SchemaIndex list"
  d_relationships :: "SchemaRelationship list"
  d_business_owner :: "string option"
  d_technical_owner :: "string option"
  d_classification :: string
  d_retention_policy :: "string option"
  d_backup_policy :: "string option"
  d_tags :: "string list"
  d_metadata :: "(string \<times> pyval) list"
  d_schema_hash :: string
  d_created_at :: "string option"
  d_updated_at :: "string option"

definition field_document :: "SchemaField \<Rightarrow> SchemaField" where
  "field_document f = f
     \<lparr> f_default_value := jsonify (f_default_value f),
       f_classification := Unconverted (case f_classification f of
            Member m \<Rightarrow> ''DataClassification.'' @ DataClassification_name m
          | Unconverted s \<Rightarrow> s),
       f_validation_rules := map (map_prod id jsonify) (f_validation_rules f) \<rparr>"

text \<open>
  The file written from \<^verbatim>\<open>asdict(schema)\<close> plus the keys \<^verbatim>\<open>schema_hash\<close> and
  \<^verbatim>\<open>created_at\<close> (on creation) or \<^verbatim>\<open>updated_at\<close> (on update).
\<close>

definition schema_document ::
  "Schema \<Rightarrow> string \<Rightarrow> string option \<Rightarrow> string option \<Rightarrow> SchemaDocument" where
  "schema_document schema schema_hash created_at updated_at =
     \<lparr> d_name = s_name schema,
       d_version = s_version schema,
       d_schema_type = ''SchemaType.'' @ SchemaType_name (s_schema_type schema),
       d_description = s_description schema,
       d_fields = map field_document (s_fields schema),
       d_indexes = s_indexes schema,
       d_relationships = s_relationships schema,
       d_business_owner = s_business_owner schema,
       d_technical_owner = s_technical_owner schema,
       d_classification = ''DataClassification.'' @ DataClassification_name (s_classification schema),
       d_retention_policy = s_retention_policy schema,
       d_backup_policy = s_backup_policy schema,
       d_tags = s_tags schema,
       d_metadata = map (map_prod id jsonify) (s_metadata schema),
       d_schema_hash = schema_hash,
       d_created_at = created_at,
       d_updated_at = updated_at \<rparr>"

record GovernanceRecord =
  g_schema_name :: string
  g_business_owner :: "string option"
  g_technical_owner :: "string option"
  g_classification :: string
  g_retention_policy :: "string option"
  g_backup_policy :: "string option"
  g_compliance_requirements :: "string list"
  g_access_controls :: "string list"
  g_audit_log :: "string list"
  g_created_at :: string
  g_last_reviewed :: "string option"
  g_next_review_date :: "string option"

text \<open>
  The four directories under \<^verbatim>\<open>base_path\<close>. Definition, version and governance files are
  keyed by schema name, migration files by file name. A version file holds the list of
  \<^verbatim>\<open>asdict(version)\<close> records in the order they were appended. Every name is a usable file
  name and reads and writes do not fail.
\<close>

record Store =
  definitions :: "string \<rightharpoonup> SchemaDocument"
  versions :: "string \<rightharpoonup> SchemaVersion list"
  migrations :: "string \<rightharpoonup> string"
  governance :: "string \<rightharpoonup> GovernanceRecord"

definition schema_exists :: "Store \<Rightarrow> string \<Rightarrow> bool" where
  "schema_exists store schema_name = (definitions store schema_name \<noteq> None)"

text \<open>\<^verbatim>\<open>SchemaType(value)\<close> and \<^verbatim>\<open>DataClassification(value)\<close>: lookup by value, ValueError otherwise.\<close>

definition SchemaType_of_value :: "string \<Rightarrow> py_error + SchemaType" where
  "SchemaType_of_value v =
     (case find (\<lambda>t. SchemaType_value t = v)
             [RELATIONAL, DOCUMENT, KEY_VALUE, GRAPH, TIME_SERIES, COLUMNAR] of
        None \<Rightarrow> Inl ValueError | Some t \<Rightarrow> Inr t)"

definition DataClassification_of_value :: "string \<Rightarrow> py_error + DataClassification" where
  "DataClassification_of_value v =
     (case find (\<lambda>c. DataClassification_value c = v)
             [PUBLIC, INTERNAL, CONFIDENTIAL, RESTRICTED, PII, PHI] of
        None \<Rightarrow> Inl ValueError | Some c \<Rightarrow> Inr c)"

text \<open>\<^verbatim>\<open>get_schema\<close>: a missing file and every exception give None.\<close>

definition get_schema :: "Store \<Rightarrow> string \<Rightarrow> Schema option" where
  "get_schema store schema_name =
     (case definitions store schema_name of
        None \<Rightarrow> None
      | Some schema_data \<Rightarrow>
          (case SchemaType_of_value (d_schema_type schema_data) of
             Inl e \<Rightarrow> None
           | Inr schema_type \<Rightarrow>
               (case DataClassification_of_value (d_classification schema_data) of
                  Inl e \<Rightarrow> None
                | Inr classification \<Rightarrow>
                    Some \<lparr> s_name = d_name schema_data,
                           s_version = d_version schema_data,
                           s_schema_type = schema_type,
                           s_description = d_description schema_data,
                           s_fields = d_fields schema_data,
                           s_indexes = d_indexes schema_data,
                           s_relationships = d_relationships schema_data,
                           s_business_owner = d_business_owner schema_data,
                           s_technical_owner = d_technical_owner schema_data,
                           s_classification = classification,
                           s_retention_policy = d_retention_policy schema_data,
                           s_backup_policy = d_backup_policy schema_data,
                           s_tags = d_tags schema_data,
                           s_metadata = d_metadata schema_data \<rparr>)))"

definition save_version :: "Store \<Rightarrow> string \<Rightarrow> SchemaVersion \<Rightarrow> Store" where
  "save_version store schema_name version =
     (let versions0 = (case versions store schema_name of None \<Rightarrow> [] | Some vs \<Rightarrow> vs)
      in store \<lparr> versions := (versions store)(schema_name \<mapsto> versions0 @ [version]) \<rparr>)"

definition create_governance_record :: "Env \<Rightarrow> nat \<Rightarrow> Store \<Rightarrow> Schema \<Rightarrow> Store" where
  "create_governance_record env clock store schema =
     (let sensitive_fields = filter is_sensitive (s_fields schema);
          compliance_requirements =
            (if sensitive_fields \<noteq> []
             then [''GDPR'', ''privacy_by_design'']
                  @ (if list_ex (\<lambda>f. f_classification f = Member PHI) sensitive_fields
                     then [''HIPAA''] else [])
             else []);
          governance_record =
            \<lparr> g_schema_name = s_name schema,
              g_business_owner = s_business_owner schema,
              g_technical_owner = s_technical_owner schema,
              g_classification = DataClassification_value (s_classification schema),
              g_retention_policy = s_retention_policy schema,
              g_backup_policy = s_backup_policy schema,
              g_compliance_requirements = compliance_requirements,
              g_access_controls = [],
              g_audit_log = [],
              g_created_at = isoformat env (utcnow env clock),
              g_last_reviewed = None,
              g_next_review_date = None \<rparr>
      in store \<lparr> governance := (governance store)(s_name schema \<mapsto> governance_record) \<rparr>)"

text \<open>\<^verbatim>\<open>schema.technical_owner or "system"\<close>.\<close>

definition or_default :: "string option \<Rightarrow> string \<Rightarrow> string" where
  "or_default x d = (case x of None \<Rightarrow> d | Some s \<Rightarrow> if s = [] then d else s)"

definition create_schema :: "Env \<Rightarrow> Store \<Rightarrow> Schema \<Rightarrow> bool \<times> Store" where
  "create_schema env store schema =
     (let validation_result = validate_schema schema in
      if \<not> valid validation_result then (False, store)
      else if schema_exists store (s_name schema) then (False, store)
      else
        (let schema_hash = generate_schema_hash env schema;
             schema_data = schema_document schema schema_hash
                             (Some (isoformat env (utcnow env 0))) None;
             store1 = store \<lparr> definitions := (definitions store)(s_name schema \<mapsto> schema_data) \<rparr>;
             version = \<lparr> v_version = s_version schema,
                         v_created_at = utcnow env 1,
                         v_created_by = or_default (s_technical_owner schema) ''system'',
                         v_description = ''Initial schema creation: '' @ s_description schema,
                         v_changes = [''Initial schema creation''],
                         v_breaking_changes = False,
                         v_rollback_version = None,
                         v_approved_by = None,
                         v_deployment_date = None \<rparr>;
             store2 = save_version store1 (s_name schema) version;
             store3 = create_governance_record env 2 store2 schema
         in (True, store3)))"

section \<open>The migration script generator\<close>

text \<open>
  The lines that \<^verbatim>\<open>_generate_migration\<close> appends for one change description: the
  comment line, then the statement chosen by the substring tests. \<^verbatim>\<open>split(...)[i]\<close>
  raises IndexError when there are too few pieces.
\<close>

definition migration_lines :: "string \<Rightarrow> string \<Rightarrow> py_error + string list" where
  "migration_lines schema_name change =
     (if py_in ''Removed field'' change then
        (case index (split change '': '') 1 of
           Inl e \<Rightarrow> Inl e
         | Inr field_name \<Rightarrow>
             Inr [''-- '' @ change,
                  ''ALTER TABLE '' @ schema_name @ '' DROP COLUMN '' @ field_name @ '';''])
      else if py_in ''Changed data type'' change then
        (case index (split change '' '') 5 of
           Inl e \<Rightarrow> Inl e
         | Inr field_name \<Rightarrow>
             (case index (split change '' -> '') 1 of
                Inl e \<Rightarrow> Inl e
              | Inr new_type \<Rightarrow>
                  Inr [''-- '' @ change,
                       ''ALTER TABLE '' @ schema_name @ '' ALTER COLUMN '' @ field_name
                         @ '' TYPE '' @ new_type @ '';'']))
      else Inr [''-- '' @ change])"

fun migration_body :: "string \<Rightarrow> string list \<Rightarrow> py_error + string list" where
  "migration_body schema_name [] = Inr []"
| "migration_body schema_name (change # changes) =
     (case migration_lines schema_name change of
        Inl e \<Rightarrow> Inl e
      | Inr ls \<Rightarrow>
          (case migration_body schema_name changes of
             Inl e \<Rightarrow> Inl e
           | Inr rest \<Rightarrow> Inr (ls @ rest)))"

text \<open>
  The lines of the script (\<^verbatim>\<open>migration_sql\<close>), or the exception raised while building them.
  The generator is only called from \<^verbatim>\<open>update_schema\<close>, where its clock reading is the
  second of the call.
\<close>

definition migration_sql ::
  "Env \<Rightarrow> string \<Rightarrow> Schema \<Rightarrow> Schema \<Rightarrow> SchemaVersion \<Rightarrow> py_error + string list" where
  "migration_sql env schema_name old_schema new_schema version =
     (let header =
            [''-- Migration for '' @ schema_name @ '' to version '' @ v_version version,
             ''-- Generated at: '' @ isoformat env (utcnow env 1),
             ''-- Description: '' @ v_description version,
             []];
          breaking_changes = detect_breaking_changes old_schema new_schema
      in case migration_body schema_name breaking_changes of
           Inl e \<Rightarrow> Inl e
         | Inr body \<Rightarrow> Inr (header @ body @ [[], ''-- End of migration'']))"

definition migration_file :: "string \<Rightarrow> SchemaVersion \<Rightarrow> string" where
  "migration_file schema_name version =
     schema_name @ ''_'' @ v_version version @ ''_migration.sql''"

text \<open>
  \<^verbatim>\<open>_generate_migration\<close>: the file is opened and written only after the loop, so an
  exception in the loop leaves the store as it was.
\<close>

definition generate_migration ::
  "Env \<Rightarrow> Store \<Rightarrow> string \<Rightarrow> Schema \<Rightarrow> Schema \<Rightarrow> SchemaVersion \<Rightarrow> py_error + Store" where
  "generate_migration env store schema_name old_schema new_schema version =
     (case migration_sql env schema_name old_schema new_schema version of
        Inl e \<Rightarrow> Inl e
      | Inr lines \<Rightarrow>
          Inr (store \<lparr> migrations := (migrations store)
                 (migration_file schema_name version \<mapsto> join [CHR 0x0A] lines) \<rparr>))"

text \<open>
  \<^verbatim>\<open>update_schema\<close> returns its boolean, the version record as the call leaves it (the
  caller's object is mutated), and the store. An exception from \<^verbatim>\<open>_generate_migration\<close>
  is caught by the \<^verbatim>\<open>except\<close> clause after the definition and version files are written.
\<close>

definition update_schema ::
  "Env \<Rightarrow> Store \<Rightarrow> Schema \<Rightarrow> SchemaVersion \<Rightarrow> bool \<times> SchemaVersion \<times> Store" where
  "update_schema env store schema version_info =
     (if \<not> schema_exists store (s_name schema) then (False, version_info, store)
      else case get_schema store (s_name schema) of
        None \<Rightarrow> (False, version_info, store)
      | Some current_schema \<Rightarrow>
          (let validation_result = validate_schema schema in
           if \<not> valid validation_result then (False, version_info, store)
           else
             (let breaking_changes = detect_breaking_changes current_schema schema;
                  version_info1 = version_info \<lparr> v_breaking_changes := length breaking_changes > 0 \<rparr>;
                  schema_hash = generate_schema_hash env schema;
                  schema_data = schema_document schema schema_hash
                                  None (Some (isoformat env (utcnow env 0)));
                  store1 = store \<lparr> definitions := (definitions store)(s_name schema \<mapsto> schema_data) \<rparr>;
                  store2 = save_version store1 (s_name schema) version_info1
              in if v_breaking_changes version_info1
                 then (case generate_migration env store2 (s_name schema) current_schema schema version_info1 of
                         Inl e \<Rightarrow> (False, version_info1, store2)
                       | Inr store3 \<Rightarrow> (True, version_info1, store3))
                 else (True, version_info1, store2))))"

section \<open>metadata_manager.py: the search scorer\<close>

datatype ResourceType =
    TABLE | VIEW | COLUMN | INDEX | SCHEMA | DATABASE | FILE | API | QUERY | REPORT
  | DASHBOARD | TRANSFORMATION

definition ResourceType_value :: "ResourceType \<Rightarrow> string" where
  "ResourceType_value t = (case t of
       TABLE \<Rightarrow> ''table'' | VIEW \<Rightarrow> ''view'' | COLUMN \<Rightarrow> ''column'' | INDEX \<Rightarrow> ''index''
     | SCHEMA \<Rightarrow> ''schema'' | DATABASE \<Rightarrow> ''database'' | FILE \<Rightarrow> ''file'' | API \<Rightarrow> ''api''
     | QUERY \<Rightarrow> ''query'' | REPORT \<Rightarrow> ''report'' | DASHBOARD \<Rightarrow> ''dashboard''
     | TRANSFORMATION \<Rightarrow> ''transformation'')"

text \<open>
  \<^verbatim>\<open>MetadataAttribute.value\<close> is annotated \<^verbatim>\<open>Any\<close> and the scorer only reads
  \<^verbatim>\<open>str(attr.value)\<close>: the type of values is a parameter \<^typ>\<open>'v\<close>, and \<^verbatim>\<open>str\<close> on it is an
  argument of the scorer. The float \<^verbatim>\<open>confidence\<close> is never computed with.
\<close>

record 'v MetadataAttribute =
  a_name :: string
  a_value :: 'v
  a_type :: string
  a_description :: "string option"
  a_source :: "string option"
  a_confidence :: real
  a_last_updated :: "datetime option"
  a_tags :: "string list option"

record 'v DataResource =
  r_resource_id :: string
  r_name :: string
  r_type :: ResourceType
  r_system :: string
  r_path :: "string option"
  r_description :: "string option"
  r_owner :: "string option"
  r_steward :: "string option"
  r_created_at :: "datetime option"
  r_updated_at :: "datetime option"
  r_schema_version :: "string option"
  r_metadata :: "(string \<times> 'v MetadataAttribute) list option"
  r_tags :: "string list option"

text \<open>
  The float score only ever holds a sum of the weights 10, 5, 3, 2 and 1, each added at
  most once; binary floating point adds these exactly, and the model keeps the score as
  an integer.
\<close>

record 'v SearchResult =
  sr_resource :: "'v DataResource"
  sr_score :: int
  sr_matching_fields :: "string list"
  sr_snippet :: "string option"

text \<open>
  \<^verbatim>\<open>_calculate_search_score\<close>. The two loops stop at the first match (\<^verbatim>\<open>break\<close>):
  \<^const>\<open>list_ex\<close> for the tags, \<^const>\<open>find\<close> for the first matching attribute, whose key
  is reported.
\<close>

definition calculate_search_score ::
  "('v \<Rightarrow> string) \<Rightarrow> 'v DataResource \<Rightarrow> string \<Rightarrow> int \<times> string list" where
  "calculate_search_score str resource query =
     (let query_lower = lower query;
          (score1, fields1) =
             (if py_in query_lower (lower (r_name resource))
              then (10, [''name'']) else (0, []));
          (score2, fields2) =
             (case r_description resource of
                Some description \<Rightarrow>
                  if description \<noteq> [] \<and> py_in query_lower (lower description)
                  then (score1 + 5, fields1 @ [''description'']) else (score1, fields1)
              | None \<Rightarrow> (score1, fields1));
          (score3, fields3) =
             (case r_tags resource of
                Some tags \<Rightarrow>
                  if list_ex (\<lambda>tag. py_in query_lower (lower tag)) tags
                  then (score2 + 3, fields2 @ [''tags'']) else (score2, fields2)
              | None \<Rightarrow> (score2, fields2));
          (score4, fields4) =
             (case r_metadata resource of
                Some metadata \<Rightarrow>
                  (case find (\<lambda>(key, attr). py_in query_lower (lower (str (a_value attr)))) metadata of
                     Some (key, attr) \<Rightarrow> (score3 + 2, fields3 @ [''metadata.'' @ key])
                   | None \<Rightarrow> (score3, fields3))
              | None \<Rightarrow> (score3, fields3));
          (score5, fields5) =
             (if py_in query_lower (lower (r_system resource))
              then (score4 + 1, fields4 @ [''system'']) else (score4, fields4))
      in (score5, fields5))"

text \<open>
  \<^verbatim>\<open>_matches_filters\<close>: the filter values are \<^verbatim>\<open>Any\<close>; a string attribute equals a
  filter value only if that value is the same string, and None only equals None.
\<close>

definition matches_filter :: "'v DataResource \<Rightarrow> string \<times> pyval \<Rightarrow> bool" where
  "matches_filter resource kv =
     (case kv of (filter_key, filter_value) \<Rightarrow>
        if filter_key = ''type'' then PStr (ResourceType_value (r_type resource)) = filter_value
        else if filter_key = ''system'' then PStr (r_system resource) = filter_value
        else if filter_key = ''owner'' then opt_str (r_owner resource) = filter_value
        else if filter_key = ''tags'' then
          (case r_tags resource of
             None \<Rightarrow> False
           | Some tags \<Rightarrow> tags \<noteq> [] \<and> filter_value \<in> set (map PStr tags))
        else True)"

definition matches_filters :: "'v DataResource \<Rightarrow> (string \<times> pyval) list \<Rightarrow> bool" where
  "matches_filters resource filters = list_all (matches_filter resource) filters"

definition generate_snippet :: "'v DataResource \<Rightarrow> string \<Rightarrow> string" where
  "generate_snippet resource query =
     (if truthy (r_description resource)
      then (let description = the (r_description resource)
            in if length description > 200 then take 200 description @ ''...'' else description)
      else ResourceType_value (r_type resource) @ '' in '' @ r_system resource)"

text \<open>\<^verbatim>\<open>results[:limit]\<close>: a negative limit counts from the end.\<close>

definition slice_to :: "'a list \<Rightarrow> int \<Rightarrow> 'a list" where
  "slice_to xs limit =
     (if limit \<ge> 0 then take (nat limit) xs else take (nat (int (length xs) + limit)) xs)"

text \<open>The body of the loop of \<^verbatim>\<open>search_resources\<close> for one resource: nothing or one result.\<close>

definition search_one ::
  "('v \<Rightarrow> string) \<Rightarrow> string \<Rightarrow> (string \<times> pyval) list option \<Rightarrow> 'v DataResource
     \<Rightarrow> 'v SearchResult list" where
  "search_one str query filters resource =
     (if (case filters of None \<Rightarrow> False | Some fs \<Rightarrow> fs \<noteq> [] \<and> \<not> matches_filters resource fs)
      then []
      else (let (score, matching_fields) = calculate_search_score str resource query
            in if score > 0
               then [\<lparr> sr_resource = resource, sr_score = score,
                       sr_matching_fields = matching_fields,
                       sr_snippet = Some (generate_snippet resource query) \<rparr>]
               else []))"

text \<open>
  \<^verbatim>\<open>search_resources\<close> over the resources of the catalog in the order the directory
  listing yields them, each file deserialised. \<^verbatim>\<open>list.sort(key=..., reverse=True)\<close> is
  stable, and so is \<^const>\<open>sort_key\<close> on the negated score.
\<close>

definition search_resources ::
  "('v \<Rightarrow> string) \<Rightarrow> 'v DataResource list \<Rightarrow> string \<Rightarrow> (string \<times> pyval) list option \<Rightarrow> int
     \<Rightarrow> 'v SearchResult list" where
  "search_resources str resources query filters limit =
     (let results = concat (map (search_one str query filters) resources);
          results1 = sort_key (\<lambda>r. - sr_score r) results
      in slice_to results1 limit)"

section \<open>The field loop, field by field\<close>

text \<open>
  What one field adds to the error list of \<^verbatim>\<open>validate_schema\<close>, given the set of field
  names entered so far: stated on its own, to be compared with the loop of the source
  (\<^const>\<open>validate_field\<close> under \<^const>\<open>fold\<close>).
\<close>

definition field_findings :: "SchemaType \<Rightarrow> string set \<Rightarrow> SchemaField \<Rightarrow> string list" where
  "field_findings schema_type seen f =
     (if f_name f = [] then [''All fields must have a name'']
      else (if f_name f \<in> seen then [''Duplicate field name: '' @ f_name f] else [])
         @ (if is_valid_data_type (f_data_type f) schema_type then []
            else [''Invalid data type '' @ f_data_type f @ '' for field '' @ f_name f]))"

text \<open>The names that count as entered: the non-empty ones.\<close>

definition entered_names :: "SchemaField list \<Rightarrow> string set" where
  "entered_names fs = set (map f_name fs) - {[]}"

fun loop_findings :: "SchemaType \<Rightarrow> string set \<Rightarrow> SchemaField list \<Rightarrow> string list" where
  "loop_findings schema_type seen [] = []"
| "loop_findings schema_type seen (f # fs) =
     field_findings schema_type seen f
       @ loop_findings schema_type (seen \<union> entered_names [f]) fs"

text \<open>The two checks made before the loop.\<close>

definition name_findings :: "Schema \<Rightarrow> string list" where
  "name_findings schema =
     (if s_name schema = [] then [''Schema name is required''] else [])
     @ (if s_fields schema = [] then [''Schema must have at least one field''] else [])"

section \<open>Constructors and sample data\<close>

text \<open>The dataclass constructors with their default values (and \<^verbatim>\<open>__post_init__\<close>).\<close>

definition SchemaField_init :: "string \<Rightarrow> string \<Rightarrow> SchemaField" where
  "SchemaField_init name data_type =
     \<lparr> f_name = name, f_data_type = data_type, f_nullable = True, f_primary_key = False,
       f_foreign_key = None, f_unique = False, f_indexed = False, f_default_value = PNone,
       f_description = None, f_classification = Member INTERNAL, f_validation_rules = [],
       f_tags = [] \<rparr>"

definition Schema_init ::
  "string \<Rightarrow> string \<Rightarrow> SchemaType \<Rightarrow> string \<Rightarrow> SchemaField list \<Rightarrow> Schema" where
  "Schema_init name version schema_type description fs =
     \<lparr> s_name = name, s_version = version, s_schema_type = schema_type,
       s_description = description, s_fields = fs, s_indexes = [], s_relationships = [],
       s_business_owner = None, s_technical_owner = None, s_classification = INTERNAL,
       s_retention_policy = None, s_backup_policy = None, s_tags = [], s_metadata = [] \<rparr>"

definition id_field :: SchemaField where
  "id_field = (SchemaField_init ''id'' ''INTEGER'') \<lparr> f_nullable := False, f_primary_key := True \<rparr>"

definition amount_field :: SchemaField where
  "amount_field = SchemaField_init ''amount'' ''DECIMAL''"

definition orders_v1 :: Schema where
  "orders_v1 = Schema_init ''orders'' ''1.0'' RELATIONAL ''Customer orders'' [id_field, amount_field]"

definition orders_not_null :: Schema where
  "orders_not_null = Schema_init ''orders'' ''2.0'' RELATIONAL ''Customer orders''
     [id_field, amount_field \<lparr> f_nullable := False \<rparr>]"

definition orders_no_amount :: Schema where
  "orders_no_amount = Schema_init ''orders'' ''2.0'' RELATIONAL ''Customer orders'' [id_field]"

definition orders_relaxed :: Schema where
  "orders_relaxed = Schema_init ''orders'' ''2.0'' RELATIONAL ''Customer orders''
     [id_field \<lparr> f_nullable := True, f_primary_key := False \<rparr>, amount_field,
      SchemaField_init ''note'' ''TEXT'']"

definition orders_lowercase :: Schema where
  "orders_lowercase = Schema_init ''orders'' ''2.0'' RELATIONAL ''Customer orders''
     [id_field, SchemaField_init ''amount'' ''decimal'']"

definition payments :: Schema where
  "payments = Schema_init ''payments'' ''1.0'' RELATIONAL ''Payments'' [amount_field]"

definition two_ids :: Schema where
  "two_ids = Schema_init ''users'' ''1.0'' RELATIONAL ''Users''
     [id_field, amount_field, SchemaField_init ''id'' ''UUID'']"

definition unnamed_field :: SchemaField where
  "unnamed_field = SchemaField_init [] ''STRING''"

definition graph_unnamed :: Schema where
  "graph_unnamed = Schema_init ''friends'' ''1.0'' GRAPH ''Friendship graph'' [unnamed_field]"

definition graph_named :: Schema where
  "graph_named = Schema_init ''friends'' ''1.0'' GRAPH ''Friendship graph''
     [SchemaField_init ''since'' ''DATE'']"

definition two_unnamed :: Schema where
  "two_unnamed = Schema_init ''misc'' ''1.0'' RELATIONAL ''Unnamed columns''
     [SchemaField_init [] ''NO_SUCH_TYPE'', id_field, SchemaField_init [] ''INTEGER'']"

definition blank_index :: SchemaIndex where
  "blank_index = \<lparr> ix_name = ''by_blank'', ix_fields = [[]], ix_unique = False,
                   ix_type = ''btree'', ix_partial_condition = None, ix_description = None \<rparr>"

definition two_unnamed_indexed :: Schema where
  "two_unnamed_indexed = two_unnamed \<lparr> s_indexes := [blank_index] \<rparr>"

text \<open>
  A fixed environment for sample runs: the serialiser and the hash are stand-ins with
  constant results, the clock reads 0, 1, 2, ...
\<close>

definition sample_env :: Env where
  "sample_env = \<lparr> json_dumps = (\<lambda>v. ''{}''), sha256_hexdigest = (\<lambda>s. ''e3b0c442''),
                  utcnow = (\<lambda>k. k), isoformat = (\<lambda>t. ''2024-01-01T00:00:00'') \<rparr>"

definition empty_store :: Store where
  "empty_store = \<lparr> definitions = Map.empty, versions = Map.empty, migrations = Map.empty,
                   governance = Map.empty \<rparr>"

definition orders_retyped :: Schema where
  "orders_retyped = Schema_init ''orders'' ''2.0'' RELATIONAL ''Customer orders''
     [id_field, SchemaField_init ''amount'' ''INTEGER'']"

definition version_2 :: SchemaVersion where
  "version_2 = \<lparr> v_version = ''2.0'', v_created_at = 7, v_created_by = ''dba'',
                 v_description = ''Second version'', v_changes = [''column changes''],
                 v_breaking_changes = False, v_rollback_version = None,
                 v_approved_by = None, v_deployment_date = None \<rparr>"

text \<open>
  A definition file whose Enum positions hold the Enum values, as \<^verbatim>\<open>get_schema\<close> reads
  them: the file of a schema with the type and classification strings replaced.
\<close>

definition definition_file :: "Schema \<Rightarrow> SchemaDocument" where
  "definition_file schema =
     (schema_document schema ''e3b0c442'' (Some ''2024-01-01T00:00:00'') None)
       \<lparr> d_schema_type := SchemaType_value (s_schema_type schema),
         d_classification := DataClassification_value (s_classification schema) \<rparr>"

definition orders_store :: Store where
  "orders_store = empty_store \<lparr> definitions := [''orders'' \<mapsto> definition_file orders_v1] \<rparr>"

definition notes_v1 :: Schema where
  "notes_v1 = Schema_init ''notes'' ''1.0'' RELATIONAL ''Notes''
     [id_field, SchemaField_init ''Removed field'' ''TEXT'']"

definition notes_v2 :: Schema where
  "notes_v2 = Schema_init ''notes'' ''2.0'' RELATIONAL ''Notes''
     [id_field, (SchemaField_init ''Removed field'' ''TEXT'') \<lparr> f_nullable := False \<rparr>]"

definition notes_store :: Store where
  "notes_store = empty_store \<lparr> definitions := [''notes'' \<mapsto> definition_file notes_v1] \<rparr>"

definition DataResource_init :: "string \<Rightarrow> string \<Rightarrow> ResourceType \<Rightarrow> string \<Rightarrow> 'v DataResource" where
  "DataResource_init resource_id name type system =
     \<lparr> r_resource_id = resource_id, r_name = name, r_type = type, r_system = system,
       r_path = None, r_description = None, r_owner = None, r_steward = None,
       r_created_at = None, r_updated_at = None, r_schema_version = None,
       r_metadata = None, r_tags = None \<rparr>"

definition user_orders :: "string DataResource" where
  "user_orders = (DataResource_init ''r1'' ''user_orders'' TABLE ''warehouse'')
     \<lparr> r_description := Some ''Customer order history'' \<rparr>"

definition shipments :: "string DataResource" where
  "shipments = (DataResource_init ''r2'' ''shipments'' TABLE ''warehouse'')
     \<lparr> r_description := Some ''Parcels sent'', r_tags := Some [''logistics'', ''Order-data''] \<rparr>"

definition invoices :: "string DataResource" where
  "invoices = (DataResource_init ''r3'' ''invoices'' TABLE ''billing'')"

definition catalog :: "string DataResource list" where
  "catalog = [shipments, invoices, user_orders]"

section \<open>Properties of the breaking-change detector\<close>

lemma update_fresh: "k \<notin> fst ` set al \<Longrightarrow> AList.update k v al = al @ [(k, v)]"
  by (induction al) auto

lemma fold_update_distinct:
  "distinct (map key fs) \<Longrightarrow> key ` set fs \<inter> fst ` set al = {} \<Longrightarrow>
   fold (\<lambda>f d. AList.update (key f) f d) fs al = al @ map (\<lambda>f. (key f, f)) fs"
proof (induction fs arbitrary: al)
  case Nil
  then show ?case by simp
next
  case (Cons f fs)
  from Cons.prems have fresh: "key f \<notin> fst ` set al" by auto
  have disj: "key ` set fs \<inter> fst ` set (al @ [(key f, f)]) = {}"
    using Cons.prems by auto
  from Cons.prems have "distinct (map key fs)" by simp
  from Cons.IH [OF this disj] show ?case
    by (simp add: update_fresh [OF fresh])
qed

lemma field_dict_distinct:
  "distinct (map f_name fs) \<Longrightarrow> field_dict fs = map (\<lambda>f. (f_name f, f)) fs"
  unfolding field_dict_def using fold_update_distinct [of f_name fs "[]"] by simp

lemma fold_update_keys_distinct:
  "distinct (map fst al) \<Longrightarrow> distinct (map fst (fold (\<lambda>f d. AList.update (key f) f d) fs al))"
  by (induction fs arbitrary: al) (simp_all add: distinct_update)

lemma field_dict_keys_distinct: "distinct (map fst (field_dict fs))"
  unfolding field_dict_def by (rule fold_update_keys_distinct) simp

lemma find_app:
  "find P (xs @ ys) = (case find P xs of None \<Rightarrow> find P ys | Some x \<Rightarrow> Some x)"
  by (induction xs) auto

lemma map_of_fold_update:
  "map_of (fold (\<lambda>f d. AList.update (key f) f d) fs al) n =
     (case find (\<lambda>f. key f = n) (rev fs) of None \<Rightarrow> map_of al n | Some f \<Rightarrow> Some f)"
  by (induction fs arbitrary: al) (auto simp: update_conv' find_app split: option.splits)

text \<open>The detector's dictionary holds, under a name, the last field of the list with that name.\<close>

lemma map_of_field_dict:
  "map_of (field_dict fs) n = find (\<lambda>f. f_name f = n) (rev fs)"
  unfolding field_dict_def by (simp add: map_of_fold_update split: option.splits)

lemma field_changes_same: "field_changes n f f = []"
  by (simp add: field_changes_def)

lemma removed_fields_set:
  "set (removed_fields od nd) = {''Removed field: '' @ n | n fo. (n, fo) \<in> set od \<and> map_of nd n = None}"
  unfolding removed_fields_def by (auto split: if_splits)

lemma changed_fields_set:
  "set (changed_fields od nd) =
     {e. \<exists>n fo fn. (n, fo) \<in> set od \<and> map_of nd n = Some fn \<and> e \<in> set (field_changes n fo fn)}"
  unfolding changed_fields_def by (auto split: option.splits) force

lemma field_changes_set:
  "e \<in> set (field_changes n fo fn) \<longleftrightarrow>
     (f_data_type fo \<noteq> f_data_type fn \<and>
        e = ''Changed data type for field '' @ n @ '': '' @ f_data_type fo @ '' -> '' @ f_data_type fn)
     \<or> (f_nullable fo \<and> \<not> f_nullable fn \<and> e = ''Field '' @ n @ '' changed from nullable to non-nullable'')
     \<or> (\<not> f_primary_key fo \<and> f_primary_key fn \<and> e = ''Field '' @ n @ '' changed to primary key'')"
  unfolding field_changes_def by auto

lemma field_changes_empty:
  "field_changes n fo fn = [] \<longleftrightarrow>
     f_data_type fn = f_data_type fo \<and> (f_nullable fo \<longrightarrow> f_nullable fn)
       \<and> (f_primary_key fn \<longrightarrow> f_primary_key fo)"
  unfolding field_changes_def by auto

lemma removed_fields_append:
  "removed_fields (xs @ ys) nd = removed_fields xs nd @ removed_fields ys nd"
  by (simp add: removed_fields_def)

lemma changed_fields_append:
  "changed_fields (xs @ ys) nd = changed_fields xs nd @ changed_fields ys nd"
  by (simp add: changed_fields_def)

lemma removed_fields_kept:
  "\<forall>f \<in> set fs. map_of nd (f_name f) \<noteq> None \<Longrightarrow>
   removed_fields (map (\<lambda>f. (f_name f, f)) fs) nd = []"
  by (induction fs) (auto simp: removed_fields_def)

lemma changed_fields_unchanged:
  "\<forall>f \<in> set fs. map_of nd (f_name f) = Some f \<Longrightarrow>
   changed_fields (map (\<lambda>f. (f_name f, f)) fs) nd = []"
  by (induction fs) (auto simp: changed_fields_def field_changes_same)

lemma map_of_named:
  "distinct (map f_name fs) \<Longrightarrow> f \<in> set fs \<Longrightarrow> map_of (map (\<lambda>f. (f_name f, f)) fs) (f_name f) = Some f"
  by (rule map_of_is_SomeI) (auto simp: comp_def)

lemma map_of_unnamed:
  "n \<notin> f_name ` set fs \<Longrightarrow> map_of (map (\<lambda>f. (f_name f, f)) fs) n = None"
  by (induction fs) auto

lemma case_option_iff:
  "(case x of None \<Rightarrow> P | Some y \<Rightarrow> Q y) \<longleftrightarrow> (x = None \<and> P) \<or> (\<exists>y. x = Some y \<and> Q y)"
  by (cases x) auto

text \<open>
  C1. In a schema whose field names are distinct (the invariant of the data model) and
  that has a nullable DECIMAL field \<open>amount\<close>: if the new schema differs only in that
  \<open>amount\<close> is no longer nullable, the detector returns exactly
  \<open>["Field amount changed from nullable to non-nullable"]\<close>; if the new schema differs only
  in that \<open>amount\<close> is gone, it returns exactly \<open>["Removed field: amount"]\<close>. The other
  attributes of the two schemas play no part.
\<close>

theorem detect_amount_nullable_and_removed:
  assumes names: "distinct (map f_name (pre @ [f] @ post))"
    and amount: "f_name f = ''amount''" "f_data_type f = ''DECIMAL''" "f_nullable f"
    and old: "s_fields old_schema = pre @ [f] @ post"
  shows "(s_fields new_schema = pre @ [f \<lparr> f_nullable := False \<rparr>] @ post \<longrightarrow>
           detect_breaking_changes old_schema new_schema
             = [''Field amount changed from nullable to non-nullable''])
       \<and> (s_fields new_schema = pre @ post \<longrightarrow>
           detect_breaking_changes old_schema new_schema = [''Removed field: amount''])"
proof (intro conjI impI)
  let ?D = "map (\<lambda>f. (f_name f, f))"
  have od: "field_dict (s_fields old_schema) = ?D pre @ [(''amount'', f)] @ ?D post"
    using names old amount(1) by (simp add: field_dict_distinct)
  {
    assume new: "s_fields new_schema = pre @ [f \<lparr> f_nullable := False \<rparr>] @ post"
    let ?f' = "f \<lparr> f_nullable := False \<rparr>"
    let ?new = "pre @ [?f'] @ post"
    have names': "distinct (map f_name ?new)" using names by simp
    have nd: "field_dict (s_fields new_schema) = ?D ?new"
      using names' new by (simp add: field_dict_distinct)
    have look: "map_of (?D ?new) (f_name g) = Some g" if "g \<in> set ?new" for g
      using map_of_named [OF names' that] .
    have pre: "\<forall>g \<in> set pre. map_of (?D ?new) (f_name g) = Some g"
      and post: "\<forall>g \<in> set post. map_of (?D ?new) (f_name g) = Some g"
      using look by auto
    have f': "map_of (?D ?new) ''amount'' = Some ?f'"
      using look [of ?f'] amount(1) by simp
    have "removed_fields (?D (pre @ [f] @ post)) (?D ?new) = []"
    proof (rule removed_fields_kept, rule ballI)
      fix g assume "g \<in> set (pre @ [f] @ post)"
      then consider "g \<in> set pre \<or> g \<in> set post" | "g = f" by auto
      then show "map_of (?D ?new) (f_name g) \<noteq> None"
      proof cases
        case 1 then show ?thesis using pre post by auto
      next
        case 2 then show ?thesis using f' amount(1) by simp
      qed
    qed
    then have removed: "removed_fields (field_dict (s_fields old_schema)) (?D ?new) = []"
      unfolding od using amount(1) by simp
    have "changed_fields [(''amount'', f)] (?D ?new)
            = [''Field amount changed from nullable to non-nullable'']"
      using f' amount by (simp add: changed_fields_def field_changes_def del: map_append)
    then have changed: "changed_fields (field_dict (s_fields old_schema)) (?D ?new)
            = [''Field amount changed from nullable to non-nullable'']"
      unfolding od changed_fields_append
      by (simp only: changed_fields_unchanged [OF pre] changed_fields_unchanged [OF post]) simp
    show "detect_breaking_changes old_schema new_schema
            = [''Field amount changed from nullable to non-nullable'']"
      unfolding detect_breaking_changes_def Let_def nd removed changed by simp
  }
  {
    assume new: "s_fields new_schema = pre @ post"
    let ?new = "pre @ post"
    have names': "distinct (map f_name ?new)" using names by simp
    have nd: "field_dict (s_fields new_schema) = ?D ?new"
      using names' new by (simp add: field_dict_distinct)
    have look: "map_of (?D ?new) (f_name g) = Some g" if "g \<in> set ?new" for g
      using map_of_named [OF names' that] .
    have pre: "\<forall>g \<in> set pre. map_of (?D ?new) (f_name g) = Some g"
      and post: "\<forall>g \<in> set post. map_of (?D ?new) (f_name g) = Some g"
      using look by auto
    have "''amount'' \<notin> f_name ` set ?new" using names amount(1) by auto
    then have gone: "map_of (?D ?new) ''amount'' = None" by (rule map_of_unnamed)
    have pre': "\<forall>g \<in> set pre. map_of (?D ?new) (f_name g) \<noteq> None"
      and post': "\<forall>g \<in> set post. map_of (?D ?new) (f_name g) \<noteq> None"
      using pre post by auto
    have "removed_fields [(''amount'', f)] (?D ?new) = [''Removed field: amount'']"
      using gone by (simp add: removed_fields_def del: map_append)
    then have removed: "removed_fields (field_dict (s_fields old_schema)) (?D ?new)
            = [''Removed field: amount'']"
      unfolding od removed_fields_append
      by (simp only: removed_fields_kept [OF pre'] removed_fields_kept [OF post']) simp
    have "changed_fields [(''amount'', f)] (?D ?new) = []"
      using gone by (simp add: changed_fields_def del: map_append)
    then have changed: "changed_fields (field_dict (s_fields old_schema)) (?D ?new) = []"
      unfolding od changed_fields_append
      by (simp only: changed_fields_unchanged [OF pre] changed_fields_unchanged [OF post]) simp
    show "detect_breaking_changes old_schema new_schema = [''Removed field: amount'']"
      unfolding detect_breaking_changes_def Let_def nd removed changed by simp
  }
qed

theorem detect_amount_nullable_and_removed_witness:
  "detect_breaking_changes orders_v1 orders_not_null
     = [''Field amount changed from nullable to non-nullable'']
   \<and> detect_breaking_changes orders_v1 orders_no_amount = [''Removed field: amount'']"
proof -
  have names: "distinct (map f_name ([id_field] @ [amount_field] @ []))"
    by (simp add: id_field_def amount_field_def SchemaField_init_def)
  have amount: "f_name amount_field = ''amount''" "f_data_type amount_field = ''DECIMAL''"
      "f_nullable amount_field"
    by (simp_all add: amount_field_def SchemaField_init_def)
  have old: "s_fields orders_v1 = [id_field] @ [amount_field] @ []"
    by (simp add: orders_v1_def Schema_init_def)
  have new1: "s_fields orders_not_null = [id_field] @ [amount_field \<lparr> f_nullable := False \<rparr>] @ []"
    by (simp add: orders_not_null_def Schema_init_def)
  have new2: "s_fields orders_no_amount = [id_field] @ []"
    by (simp add: orders_no_amount_def Schema_init_def)
  from detect_amount_nullable_and_removed [OF names amount old, of orders_not_null] new1
    detect_amount_nullable_and_removed [OF names amount old, of orders_no_amount] new2
  show ?thesis by blast
qed

text \<open>
  C2. An entry of the detector's output always comes from a field \<open>fo\<close> that the old
  schema holds under a name \<open>n\<close>, and is of one of four kinds: \<open>n\<close> is absent from the new
  schema; or the new schema holds \<open>fn\<close> under \<open>n\<close> and the data type strings differ
  (string inequality, so case matters), or \<open>fo\<close> is nullable and \<open>fn\<close> is not, or \<open>fo\<close> is
  not a primary key and \<open>fn\<close> is. Conversely each such change gives its entry. Hence the
  output is empty exactly when every old field is still there with the same data type,
  is not turned from nullable to non-nullable and is not promoted to primary key,
  whatever fields the new schema adds, makes nullable or demotes from primary key.
\<close>

theorem detect_breaking_changes_kinds:
  "(entry \<in> set (detect_breaking_changes old_schema new_schema) \<longleftrightarrow>
      (\<exists>n fo. map_of (field_dict (s_fields old_schema)) n = Some fo \<and>
         (case map_of (field_dict (s_fields new_schema)) n of
            None \<Rightarrow> entry = ''Removed field: '' @ n
          | Some fn \<Rightarrow>
              (f_data_type fo \<noteq> f_data_type fn \<and>
                 entry = ''Changed data type for field '' @ n @ '': ''
                           @ f_data_type fo @ '' -> '' @ f_data_type fn)
            \<or> (f_nullable fo \<and> \<not> f_nullable fn \<and>
                 entry = ''Field '' @ n @ '' changed from nullable to non-nullable'')
            \<or> (\<not> f_primary_key fo \<and> f_primary_key fn \<and>
                 entry = ''Field '' @ n @ '' changed to primary key''))))
   \<and> (detect_breaking_changes old_schema new_schema = [] \<longleftrightarrow>
      (\<forall>n fo. map_of (field_dict (s_fields old_schema)) n = Some fo \<longrightarrow>
         (\<exists>fn. map_of (field_dict (s_fields new_schema)) n = Some fn \<and>
               f_data_type fn = f_data_type fo \<and>
               (f_nullable fo \<longrightarrow> f_nullable fn) \<and>
               (f_primary_key fn \<longrightarrow> f_primary_key fo))))"
proof -
  let ?od = "field_dict (s_fields old_schema)" and ?nd = "field_dict (s_fields new_schema)"
  have mem: "(n, fo) \<in> set ?od \<longleftrightarrow> map_of ?od n = Some fo" for n fo
    using field_dict_keys_distinct [of "s_fields old_schema"] by simp
  have kinds: "e \<in> set (detect_breaking_changes old_schema new_schema) \<longleftrightarrow>
      (\<exists>n fo. map_of ?od n = Some fo \<and>
         (case map_of ?nd n of
            None \<Rightarrow> e = ''Removed field: '' @ n
          | Some fn \<Rightarrow> e \<in> set (field_changes n fo fn)))" for e
    unfolding detect_breaking_changes_def Let_def set_append Un_iff
      removed_fields_set changed_fields_set mem case_option_iff
    by blast
  have first: "entry \<in> set (detect_breaking_changes old_schema new_schema) \<longleftrightarrow>
      (\<exists>n fo. map_of ?od n = Some fo \<and>
         (case map_of ?nd n of
            None \<Rightarrow> entry = ''Removed field: '' @ n
          | Some fn \<Rightarrow>
              (f_data_type fo \<noteq> f_data_type fn \<and>
                 entry = ''Changed data type for field '' @ n @ '': ''
                           @ f_data_type fo @ '' -> '' @ f_data_type fn)
            \<or> (f_nullable fo \<and> \<not> f_nullable fn \<and>
                 entry = ''Field '' @ n @ '' changed from nullable to non-nullable'')
            \<or> (\<not> f_primary_key fo \<and> f_primary_key fn \<and>
                 entry = ''Field '' @ n @ '' changed to primary key'')))"
    unfolding kinds field_changes_set ..
  have "detect_breaking_changes old_schema new_schema = [] \<longleftrightarrow>
      (\<forall>e. e \<notin> set (detect_breaking_changes old_schema new_schema))"
    by (cases "detect_breaking_changes old_schema new_schema") auto
  also have "\<dots> \<longleftrightarrow> (\<forall>n fo. map_of ?od n = Some fo \<longrightarrow>
         (\<exists>fn. map_of ?nd n = Some fn \<and> field_changes n fo fn = []))"
  proof
    assume none: "\<forall>e. e \<notin> set (detect_breaking_changes old_schema new_schema)"
    show "\<forall>n fo. map_of ?od n = Some fo \<longrightarrow>
         (\<exists>fn. map_of ?nd n = Some fn \<and> field_changes n fo fn = [])"
    proof (intro allI impI)
      fix n fo assume old: "map_of ?od n = Some fo"
      show "\<exists>fn. map_of ?nd n = Some fn \<and> field_changes n fo fn = []"
      proof (cases "map_of ?nd n")
        case None
        with old have "''Removed field: '' @ n \<in> set (detect_breaking_changes old_schema new_schema)"
          unfolding kinds by (intro exI [of _ n] exI [of _ fo]) simp
        with none show ?thesis by blast
      next
        case (Some fn)
        have "field_changes n fo fn = []"
        proof (cases "field_changes n fo fn")
          case Nil then show ?thesis .
        next
          case (Cons e es)
          with old Some have "e \<in> set (detect_breaking_changes old_schema new_schema)"
            unfolding kinds by (intro exI [of _ n] exI [of _ fo]) simp
          with none show ?thesis by blast
        qed
        with Some show ?thesis by simp
      qed
    qed
  next
    assume all: "\<forall>n fo. map_of ?od n = Some fo \<longrightarrow>
         (\<exists>fn. map_of ?nd n = Some fn \<and> field_changes n fo fn = [])"
    show "\<forall>e. e \<notin> set (detect_breaking_changes old_schema new_schema)"
      unfolding kinds using all by (fastforce split: option.splits)
  qed
  finally have second: "detect_breaking_changes old_schema new_schema = [] \<longleftrightarrow>
      (\<forall>n fo. map_of ?od n = Some fo \<longrightarrow>
         (\<exists>fn. map_of ?nd n = Some fn \<and> field_changes n fo fn = []))" .
  show ?thesis
    using first second unfolding field_changes_empty by blast
qed

lemmas detector_defs =
  detect_breaking_changes_def removed_fields_def changed_fields_def field_changes_def
  field_dict_def

lemmas sample_schema_defs =
  Schema_init_def SchemaField_init_def id_field_def amount_field_def orders_v1_def
  orders_not_null_def orders_no_amount_def orders_relaxed_def orders_lowercase_def

theorem detect_breaking_changes_kinds_witness:
  "detect_breaking_changes orders_v1 orders_relaxed = []
   \<and> map_of (field_dict (s_fields orders_v1)) ''id'' = Some id_field
   \<and> (\<exists>fn. map_of (field_dict (s_fields orders_relaxed)) ''id'' = Some fn \<and>
             f_data_type fn = f_data_type id_field \<and>
             (f_nullable id_field \<longrightarrow> f_nullable fn) \<and>
             (f_primary_key fn \<longrightarrow> f_primary_key id_field))
   \<and> ''Changed data type for field amount: DECIMAL -> decimal''
        \<in> set (detect_breaking_changes orders_v1 orders_lowercase)"
proof -
  have none: "detect_breaking_changes orders_v1 orders_relaxed = []"
    by (simp add: detector_defs sample_schema_defs)
  have old_id: "map_of (field_dict (s_fields orders_v1)) ''id'' = Some id_field"
    by (simp add: field_dict_def sample_schema_defs)
  have old_amount: "map_of (field_dict (s_fields orders_v1)) ''amount'' = Some amount_field"
    by (simp add: field_dict_def sample_schema_defs)
  have new_amount: "map_of (field_dict (s_fields orders_lowercase)) ''amount''
      = Some (SchemaField_init ''amount'' ''decimal'')"
    by (simp add: field_dict_def sample_schema_defs)
  have types: "f_data_type amount_field = ''DECIMAL''"
      "f_data_type (SchemaField_init ''amount'' ''decimal'') = ''decimal''"
    by (simp_all add: sample_schema_defs)
  from none old_id
    detect_breaking_changes_kinds [of "[]" orders_v1 orders_relaxed]
  have widened: "\<exists>fn. map_of (field_dict (s_fields orders_relaxed)) ''id'' = Some fn \<and>
             f_data_type fn = f_data_type id_field \<and>
             (f_nullable id_field \<longrightarrow> f_nullable fn) \<and>
             (f_primary_key fn \<longrightarrow> f_primary_key id_field)"
    by blast
  have "\<exists>n fo. map_of (field_dict (s_fields orders_v1)) n = Some fo \<and>
         (case map_of (field_dict (s_fields orders_lowercase)) n of
            None \<Rightarrow> ''Changed data type for field amount: DECIMAL -> decimal'' = ''Removed field: '' @ n
          | Some fn \<Rightarrow>
              (f_data_type fo \<noteq> f_data_type fn \<and>
                 ''Changed data type for field amount: DECIMAL -> decimal''
                   = ''Changed data type for field '' @ n @ '': ''
                           @ f_data_type fo @ '' -> '' @ f_data_type fn)
            \<or> (f_nullable fo \<and> \<not> f_nullable fn \<and>
                 ''Changed data type for field amount: DECIMAL -> decimal''
                   = ''Field '' @ n @ '' changed from nullable to non-nullable'')
            \<or> (\<not> f_primary_key fo \<and> f_primary_key fn \<and>
                 ''Changed data type for field amount: DECIMAL -> decimal''
                   = ''Field '' @ n @ '' changed to primary key''))"
    by (intro exI [of _ "''amount''"] exI [of _ amount_field])
       (simp add: old_amount new_amount types)
  with detect_breaking_changes_kinds
         [of "''Changed data type for field amount: DECIMAL -> decimal''" orders_v1 orders_lowercase]
  have "''Changed data type for field amount: DECIMAL -> decimal''
          \<in> set (detect_breaking_changes orders_v1 orders_lowercase)"
    by blast
  with none old_id widened show ?thesis by blast
qed

section \<open>Properties of schema validation\<close>

lemma entered_names_Cons:
  "entered_names (f # fs) = entered_names [f] \<union> entered_names fs"
  by (auto simp: entered_names_def)

lemma entered_names_append:
  "entered_names (fs @ gs) = entered_names fs \<union> entered_names gs"
  by (auto simp: entered_names_def)

lemma validate_field_step:
  "validate_field schema_type f (errs, seen, pks) =
     (errs @ field_findings schema_type seen f,
      seen \<union> entered_names [f],
      pks @ map f_name (filter (\<lambda>f. f_name f \<noteq> [] \<and> f_primary_key f) [f]))"
  by (simp add: validate_field_def field_findings_def entered_names_def Let_def)

text \<open>The loop of the source computes the field-by-field findings.\<close>

lemma field_loop:
  "fold (validate_field schema_type) fs (errs, seen, pks) =
     (errs @ loop_findings schema_type seen fs,
      seen \<union> entered_names fs,
      pks @ map f_name (filter (\<lambda>f. f_name f \<noteq> [] \<and> f_primary_key f) fs))"
proof (induction fs arbitrary: errs seen pks)
  case Nil
  then show ?case by (simp add: entered_names_def)
next
  case (Cons f fs)
  have "fold (validate_field schema_type) (f # fs) (errs, seen, pks)
      = fold (validate_field schema_type) fs (validate_field schema_type f (errs, seen, pks))"
    by simp
  also have "\<dots> = (errs @ loop_findings schema_type seen (f # fs),
      seen \<union> entered_names (f # fs),
      pks @ map f_name (filter (\<lambda>f. f_name f \<noteq> [] \<and> f_primary_key f) (f # fs)))"
    unfolding validate_field_step Cons.IH
    by (simp add: entered_names_Cons [of f fs] Un_assoc)
  finally show ?case .
qed

lemma validate_schema_errors:
  "errors (validate_schema schema) =
     name_findings schema
     @ loop_findings (s_schema_type schema) {} (s_fields schema)
     @ index_errors (entered_names (s_fields schema)) (s_indexes schema)
     @ relationship_errors (entered_names (s_fields schema)) (s_relationships schema)"
  by (simp add: validate_schema_def field_loop name_findings_def Let_def)

lemma validate_schema_valid:
  "valid (validate_schema schema) \<longleftrightarrow> errors (validate_schema schema) = []"
  by (simp add: validate_schema_def Let_def split: prod.splits)

lemma validate_schema_warnings:
  "warnings (validate_schema schema) =
     (let primary_keys = map f_name (filter (\<lambda>f. f_name f \<noteq> [] \<and> f_primary_key f) (s_fields schema))
      in (if s_schema_type schema = RELATIONAL \<and> primary_keys = []
          then [''Relational schema should have a primary key''] else [])
       @ (if length primary_keys > 1
          then [''Multiple primary keys detected, consider composite key design''] else [])
       @ (if filter is_sensitive (s_fields schema) \<noteq> [] \<and> \<not> truthy (s_retention_policy schema)
          then [''Schema contains sensitive data but no retention policy defined''] else []))"
  by (simp add: validate_schema_def field_loop Let_def)

lemma loop_findings_append:
  "loop_findings st seen (fs @ gs) =
     loop_findings st seen fs @ loop_findings st (seen \<union> entered_names fs) gs"
proof (induction fs arbitrary: seen)
  case Nil
  then show ?case by (simp add: entered_names_def)
next
  case (Cons f fs)
  show ?case
    by (simp add: Cons.IH entered_names_Cons [of f fs] Un_assoc)
qed

lemma loop_findings_clean:
  "distinct (map f_name fs) \<Longrightarrow>
   \<forall>f \<in> set fs. f_name f \<noteq> [] \<and> is_valid_data_type (f_data_type f) st \<Longrightarrow>
   \<forall>f \<in> set fs. f_name f \<notin> seen \<Longrightarrow>
   loop_findings st seen fs = []"
proof (induction fs arbitrary: seen)
  case Nil
  then show ?case by simp
next
  case (Cons f fs)
  have here: "field_findings st seen f = []"
    using Cons.prems by (simp add: field_findings_def)
  have d: "distinct (map f_name fs)" using Cons.prems(1) by simp
  have v: "\<forall>g \<in> set fs. f_name g \<noteq> [] \<and> is_valid_data_type (f_data_type g) st"
    using Cons.prems(2) by simp
  have "\<forall>g \<in> set fs. f_name g \<noteq> f_name f"
    using Cons.prems(1) by (simp add: image_iff) metis
  moreover have "\<forall>g \<in> set fs. f_name g \<notin> seen" using Cons.prems(3) by simp
  ultimately have s: "\<forall>g \<in> set fs. f_name g \<notin> seen \<union> entered_names [f]"
    by (simp add: entered_names_def)
  from Cons.IH [OF d v s] here show ?case by simp
qed

lemma index_errors_none:
  "\<forall>i \<in> set indexes. set (ix_fields i) \<subseteq> names \<Longrightarrow> index_errors names indexes = []"
  by (auto simp: index_errors_def)

lemma relationship_errors_none:
  "\<forall>r \<in> set rels. rel_source_field r \<in> names \<Longrightarrow> relationship_errors names rels = []"
  by (auto simp: relationship_errors_def)

lemma entered_names_all:
  "\<forall>f \<in> set fs. f_name f \<noteq> [] \<Longrightarrow> entered_names fs = f_name ` set fs"
  by (auto simp: entered_names_def)

lemma invalid_type_found:
  "f \<in> set fs \<Longrightarrow> f_name f \<noteq> [] \<Longrightarrow> \<not> is_valid_data_type (f_data_type f) st \<Longrightarrow>
   ''Invalid data type '' @ f_data_type f @ '' for field '' @ f_name f
     \<in> set (loop_findings st seen fs)"
  by (induction fs arbitrary: seen) (auto simp: field_findings_def)

text \<open>
  C6. The result is valid exactly when no error was recorded, so warnings play no part.
  A RELATIONAL schema none of whose fields is marked as primary key gets the warning
  \<open>"Relational schema should have a primary key"\<close>, and is valid all the same when it
  has nothing that makes an error: a name, at least one field, every field with a
  non-empty name of its own and a data type of the RELATIONAL list, and every index
  field and relationship source field among the field names. A schema with two fields
  named \<open>id\<close> has the error \<open>"Duplicate field name: id"\<close> and is not valid.
\<close>

theorem validate_schema_valid_iff_no_errors:
  "(valid (validate_schema schema) \<longleftrightarrow> errors (validate_schema schema) = [])
   \<and> (s_schema_type schema = RELATIONAL \<and> (\<forall>f \<in> set (s_fields schema). \<not> f_primary_key f) \<longrightarrow>
        ''Relational schema should have a primary key'' \<in> set (warnings (validate_schema schema))
        \<and> (s_name schema \<noteq> [] \<and> s_fields schema \<noteq> [] \<and>
           (\<forall>f \<in> set (s_fields schema).
               f_name f \<noteq> [] \<and> is_valid_data_type (f_data_type f) RELATIONAL) \<and>
           distinct (map f_name (s_fields schema)) \<and>
           (\<forall>i \<in> set (s_indexes schema). set (ix_fields i) \<subseteq> f_name ` set (s_fields schema)) \<and>
           (\<forall>r \<in> set (s_relationships schema). rel_source_field r \<in> f_name ` set (s_fields schema))
           \<longrightarrow> valid (validate_schema schema)))
   \<and> (s_fields schema = pre @ [f1] @ mid @ [f2] @ post \<and> f_name f1 = ''id'' \<and> f_name f2 = ''id'' \<longrightarrow>
        ''Duplicate field name: id'' \<in> set (errors (validate_schema schema))
        \<and> \<not> valid (validate_schema schema))"
proof (intro conjI impI)
  show "valid (validate_schema schema) \<longleftrightarrow> errors (validate_schema schema) = []"
    by (rule validate_schema_valid)
next
  assume "s_schema_type schema = RELATIONAL \<and> (\<forall>f \<in> set (s_fields schema). \<not> f_primary_key f)"
  then have rel: "s_schema_type schema = RELATIONAL"
    and nopk: "filter (\<lambda>f. f_name f \<noteq> [] \<and> f_primary_key f) (s_fields schema) = []"
    by (auto simp: filter_empty_conv)
  show "''Relational schema should have a primary key'' \<in> set (warnings (validate_schema schema))"
    by (simp add: validate_schema_warnings rel nopk)
next
  assume "s_schema_type schema = RELATIONAL \<and> (\<forall>f \<in> set (s_fields schema). \<not> f_primary_key f)"
  then have rel: "s_schema_type schema = RELATIONAL" by simp
  assume clean: "s_name schema \<noteq> [] \<and> s_fields schema \<noteq> [] \<and>
           (\<forall>f \<in> set (s_fields schema).
               f_name f \<noteq> [] \<and> is_valid_data_type (f_data_type f) RELATIONAL) \<and>
           distinct (map f_name (s_fields schema)) \<and>
           (\<forall>i \<in> set (s_indexes schema). set (ix_fields i) \<subseteq> f_name ` set (s_fields schema)) \<and>
           (\<forall>r \<in> set (s_relationships schema). rel_source_field r \<in> f_name ` set (s_fields schema))"
  then have names: "entered_names (s_fields schema) = f_name ` set (s_fields schema)"
    by (simp add: entered_names_all)
  have e1: "name_findings schema = []"
    using clean by (simp add: name_findings_def)
  have e2: "loop_findings (s_schema_type schema) {} (s_fields schema) = []"
    unfolding rel using clean by (intro loop_findings_clean) simp_all
  have e3: "index_errors (entered_names (s_fields schema)) (s_indexes schema) = []"
    unfolding names using clean by (intro index_errors_none) blast
  have e4: "relationship_errors (entered_names (s_fields schema)) (s_relationships schema) = []"
    unfolding names using clean by (intro relationship_errors_none) blast
  show "valid (validate_schema schema)"
    by (simp add: validate_schema_valid validate_schema_errors e1 e2 e3 e4)
next
  assume dup: "s_fields schema = pre @ [f1] @ mid @ [f2] @ post \<and> f_name f1 = ''id'' \<and> f_name f2 = ''id''"
  let ?st = "s_schema_type schema"
  let ?seen = "{} \<union> entered_names (pre @ [f1] @ mid)"
  have "''id'' \<in> ?seen" using dup by (simp add: entered_names_def)
  then have "''Duplicate field name: id'' \<in> set (field_findings ?st ?seen f2)"
    using dup by (simp add: field_findings_def)
  then have "''Duplicate field name: id'' \<in> set (loop_findings ?st ?seen ([f2] @ post))"
    by simp
  moreover have "loop_findings ?st {} (s_fields schema)
      = loop_findings ?st {} (pre @ [f1] @ mid) @ loop_findings ?st ?seen ([f2] @ post)"
    using dup loop_findings_append [of ?st "{}" "pre @ [f1] @ mid" "[f2] @ post"] by simp
  ultimately have "''Duplicate field name: id'' \<in> set (loop_findings ?st {} (s_fields schema))"
    by simp
  then show found: "''Duplicate field name: id'' \<in> set (errors (validate_schema schema))"
    by (simp add: validate_schema_errors)
  then have "errors (validate_schema schema) \<noteq> []" by auto
  then show "\<not> valid (validate_schema schema)"
    by (simp add: validate_schema_valid)
qed

lemmas validation_defs =
  is_valid_data_type_def whitelist_def valid_types_def upper_def upper_char_def
  lower_letters_def upper_letters_def

lemmas validation_sample_defs =
  Schema_init_def SchemaField_init_def id_field_def amount_field_def unnamed_field_def
  payments_def two_ids_def graph_unnamed_def graph_named_def two_unnamed_def

theorem validate_schema_valid_iff_no_errors_witness:
  "''Relational schema should have a primary key'' \<in> set (warnings (validate_schema payments))
   \<and> valid (validate_schema payments)
   \<and> errors (validate_schema payments) = []
   \<and> ''Duplicate field name: id'' \<in> set (errors (validate_schema two_ids))
   \<and> \<not> valid (validate_schema two_ids)"
proof -
  have rel: "s_schema_type payments = RELATIONAL \<and> (\<forall>f \<in> set (s_fields payments). \<not> f_primary_key f)"
    by (simp add: validation_sample_defs)
  have clean: "s_name payments \<noteq> [] \<and> s_fields payments \<noteq> [] \<and>
           (\<forall>f \<in> set (s_fields payments).
               f_name f \<noteq> [] \<and> is_valid_data_type (f_data_type f) RELATIONAL) \<and>
           distinct (map f_name (s_fields payments)) \<and>
           (\<forall>i \<in> set (s_indexes payments). set (ix_fields i) \<subseteq> f_name ` set (s_fields payments)) \<and>
           (\<forall>r \<in> set (s_relationships payments). rel_source_field r \<in> f_name ` set (s_fields payments))"
    by (simp add: validation_sample_defs validation_defs)
  have dup: "s_fields two_ids = [] @ [id_field] @ [amount_field] @ [SchemaField_init ''id'' ''UUID''] @ []
      \<and> f_name id_field = ''id'' \<and> f_name (SchemaField_init ''id'' ''UUID'') = ''id''"
    by (simp add: validation_sample_defs)
  from rel clean validate_schema_valid_iff_no_errors [of payments]
  have one: "''Relational schema should have a primary key'' \<in> set (warnings (validate_schema payments))
      \<and> valid (validate_schema payments) \<and> errors (validate_schema payments) = []"
    by blast
  from dup validate_schema_valid_iff_no_errors
             [of two_ids "[]" id_field "[amount_field]" "SchemaField_init ''id'' ''UUID''" "[]"]
  have two: "''Duplicate field name: id'' \<in> set (errors (validate_schema two_ids))
      \<and> \<not> valid (validate_schema two_ids)"
    by blast
  from one two show ?thesis by blast
qed

lemma field_findings_unnamed:
  "f_name f = [] \<Longrightarrow> field_findings st seen f = [''All fields must have a name'']"
  by (simp add: field_findings_def)

lemma entered_names_unnamed: "f_name f = [] \<Longrightarrow> entered_names [f] = {}"
  by (simp add: entered_names_def)

lemma count_missing_name_field:
  "count_list (field_findings st seen f) ''All fields must have a name''
     = (if f_name f = [] then 1 else 0)"
  by (simp add: field_findings_def)

lemma count_missing_name_loop:
  "count_list (loop_findings st seen fs) ''All fields must have a name''
     = length (filter (\<lambda>f. f_name f = []) fs)"
  by (induction fs arbitrary: seen) (simp_all add: count_missing_name_field)

lemma missing_name_not_index_error:
  "''All fields must have a name'' \<notin> set (index_errors names indexes)"
  by (auto simp: index_errors_def)

lemma missing_name_not_relationship_error:
  "''All fields must have a name'' \<notin> set (relationship_errors names rels)"
  by (auto simp: relationship_errors_def)

lemma missing_name_not_name_finding:
  "''All fields must have a name'' \<notin> set (name_findings schema)"
  by (simp add: name_findings_def)

lemma no_empty_duplicate_field:
  "''Duplicate field name: '' \<notin> set (field_findings st seen f)"
  by (simp add: field_findings_def)

lemma no_empty_duplicate_loop:
  "''Duplicate field name: '' \<notin> set (loop_findings st seen fs)"
  by (induction fs arbitrary: seen) (simp_all add: no_empty_duplicate_field)

lemma no_empty_duplicate_rest:
  "''Duplicate field name: '' \<notin> set (name_findings schema)"
  "''Duplicate field name: '' \<notin> set (index_errors names indexes)"
  "''Duplicate field name: '' \<notin> set (relationship_errors names rels)"
  by (auto simp: name_findings_def index_errors_def relationship_errors_def)

lemma loop_findings_unnamed:
  "f_name f = [] \<Longrightarrow>
   loop_findings st seen (pre @ f # post) =
     loop_findings st seen pre @ [''All fields must have a name'']
       @ loop_findings st (seen \<union> entered_names pre) post"
  by (simp add: loop_findings_append field_findings_unnamed entered_names_unnamed)

lemma entered_names_without_unnamed:
  "f_name f = [] \<Longrightarrow> entered_names (pre @ f # post) = entered_names (pre @ post)"
  by (simp add: entered_names_append entered_names_Cons [of f post] entered_names_unnamed)

lemma empty_name_index_error:
  "i \<in> set indexes \<Longrightarrow> [] \<in> set (ix_fields i) \<Longrightarrow>
   ''Index '' @ ix_name i @ '' references non-existent field: ''
     \<in> set (index_errors (entered_names fs) indexes)"
  unfolding index_errors_def entered_names_def by force

text \<open>
  C10. Every field with an empty name gives exactly one error
  \<open>"All fields must have a name"\<close>, and the error list never holds a duplicate-name error
  for the empty name. Nothing else of such a field reaches the error list: replacing it
  by any other field with an empty name, whatever its data type, leaves the errors as
  they are, and taking it out of a schema that has other fields takes out that one
  error and nothing else. The empty name is never among the entered field names: an
  index that lists it is reported as referencing a non-existent field. (The sensitive-data
  warning, made after the loop over all fields, is not part of this.)
\<close>

theorem unnamed_field_only_missing_name_error:
  "count_list (errors (validate_schema schema)) ''All fields must have a name''
     = length (filter (\<lambda>f. f_name f = []) (s_fields schema))
   \<and> ''Duplicate field name: '' \<notin> set (errors (validate_schema schema))
   \<and> (f_name f = [] \<and> f_name f' = [] \<longrightarrow>
        errors (validate_schema (schema \<lparr> s_fields := pre @ [f'] @ post \<rparr>))
          = errors (validate_schema (schema \<lparr> s_fields := pre @ [f] @ post \<rparr>)))
   \<and> (f_name f = [] \<and> pre @ post \<noteq> [] \<longrightarrow>
        (\<exists>before after.
           errors (validate_schema (schema \<lparr> s_fields := pre @ [f] @ post \<rparr>))
             = before @ [''All fields must have a name''] @ after
         \<and> errors (validate_schema (schema \<lparr> s_fields := pre @ post \<rparr>)) = before @ after))
   \<and> (i \<in> set (s_indexes schema) \<and> [] \<in> set (ix_fields i) \<longrightarrow>
        ''Index '' @ ix_name i @ '' references non-existent field: ''
          \<in> set (errors (validate_schema schema)))"
proof (intro conjI impI)
  show "count_list (errors (validate_schema schema)) ''All fields must have a name''
     = length (filter (\<lambda>f. f_name f = []) (s_fields schema))"
    by (simp add: validate_schema_errors count_missing_name_loop
          missing_name_not_index_error missing_name_not_relationship_error
          missing_name_not_name_finding)
next
  show "''Duplicate field name: '' \<notin> set (errors (validate_schema schema))"
    by (simp add: validate_schema_errors no_empty_duplicate_loop no_empty_duplicate_rest)
next
  assume "f_name f = [] \<and> f_name f' = []"
  then have f: "f_name f = []" and f': "f_name f' = []" by simp_all
  show "errors (validate_schema (schema \<lparr> s_fields := pre @ [f'] @ post \<rparr>))
          = errors (validate_schema (schema \<lparr> s_fields := pre @ [f] @ post \<rparr>))"
    by (simp add: validate_schema_errors name_findings_def
          loop_findings_unnamed [OF f] loop_findings_unnamed [OF f']
          entered_names_without_unnamed [OF f] entered_names_without_unnamed [OF f'])
next
  assume "f_name f = [] \<and> pre @ post \<noteq> []"
  then have f: "f_name f = []" and rest: "pre @ post \<noteq> []" by simp_all
  let ?st = "s_schema_type schema"
  let ?with = "schema \<lparr> s_fields := pre @ [f] @ post \<rparr>"
  let ?without = "schema \<lparr> s_fields := pre @ post \<rparr>"
  let ?head = "(if s_name schema = [] then [''Schema name is required''] else [])"
  let ?before = "?head @ loop_findings ?st {} pre"
  let ?after = "loop_findings ?st ({} \<union> entered_names pre) post
      @ index_errors (entered_names (pre @ post)) (s_indexes schema)
      @ relationship_errors (entered_names (pre @ post)) (s_relationships schema)"
  have h1: "name_findings ?with = ?head" by (simp add: name_findings_def)
  have h2: "name_findings ?without = ?head" using rest by (simp add: name_findings_def)
  have w: "errors (validate_schema ?with) = ?before @ [''All fields must have a name''] @ ?after"
    unfolding validate_schema_errors h1
    by (simp add: loop_findings_unnamed [OF f] entered_names_without_unnamed [OF f])
  have wo: "errors (validate_schema ?without) = ?before @ ?after"
    unfolding validate_schema_errors h2
    by (simp add: loop_findings_append)
  from w wo show "\<exists>before after.
           errors (validate_schema ?with) = before @ [''All fields must have a name''] @ after
         \<and> errors (validate_schema ?without) = before @ after"
    by blast
next
  assume "i \<in> set (s_indexes schema) \<and> [] \<in> set (ix_fields i)"
  then have "i \<in> set (s_indexes schema)" and "[] \<in> set (ix_fields i)" by simp_all
  then have "''Index '' @ ix_name i @ '' references non-existent field: ''
     \<in> set (index_errors (entered_names (s_fields schema)) (s_indexes schema))"
    by (rule empty_name_index_error)
  then show "''Index '' @ ix_name i @ '' references non-existent field: ''
          \<in> set (errors (validate_schema schema))"
    by (simp add: validate_schema_errors)
qed

lemmas findings_defs =
  validate_schema_errors name_findings_def field_findings_def entered_names_def
  index_errors_def relationship_errors_def

theorem unnamed_field_only_missing_name_error_witness:
  "count_list (errors (validate_schema two_unnamed)) ''All fields must have a name'' = 2
   \<and> ''Duplicate field name: '' \<notin> set (errors (validate_schema two_unnamed))
   \<and> errors (validate_schema two_unnamed)
       = [''All fields must have a name'', ''All fields must have a name'']
   \<and> errors (validate_schema (two_unnamed \<lparr> s_fields := [] @ [SchemaField_init [] ''INTEGER''] @ [id_field] \<rparr>))
       = errors (validate_schema (two_unnamed \<lparr> s_fields := [] @ [SchemaField_init [] ''NO_SUCH_TYPE''] @ [id_field] \<rparr>))
   \<and> (\<exists>before after.
         errors (validate_schema (two_unnamed \<lparr> s_fields := [] @ [SchemaField_init [] ''NO_SUCH_TYPE''] @ [id_field] \<rparr>))
           = before @ [''All fields must have a name''] @ after
       \<and> errors (validate_schema (two_unnamed \<lparr> s_fields := [] @ [id_field] \<rparr>)) = before @ after)
   \<and> ''Index by_blank references non-existent field: ''
        \<in> set (errors (validate_schema two_unnamed_indexed))"
proof -
  have n: "length (filter (\<lambda>f. f_name f = []) (s_fields two_unnamed)) = 2"
    by (simp add: validation_sample_defs)
  have names: "f_name (SchemaField_init [] ''NO_SUCH_TYPE'') = [] \<and> f_name (SchemaField_init [] ''INTEGER'') = []"
    by (simp add: SchemaField_init_def)
  have rest: "f_name (SchemaField_init [] ''NO_SUCH_TYPE'') = [] \<and> [] @ [id_field] \<noteq> []"
    by (simp add: SchemaField_init_def)
  have ix: "blank_index \<in> set (s_indexes two_unnamed_indexed) \<and> [] \<in> set (ix_fields blank_index)"
    by (simp add: two_unnamed_indexed_def blank_index_def)
  have ixn: "ix_name blank_index = ''by_blank''" by (simp add: blank_index_def)
  have all: "errors (validate_schema two_unnamed)
       = [''All fields must have a name'', ''All fields must have a name'']"
    by (simp add: findings_defs validation_sample_defs validation_defs)
  note inst = unnamed_field_only_missing_name_error
    [of two_unnamed "SchemaField_init [] ''NO_SUCH_TYPE''" "SchemaField_init [] ''INTEGER''"
        "[]" "[id_field]" blank_index]
  from inst n have c1: "count_list (errors (validate_schema two_unnamed)) ''All fields must have a name'' = 2"
    by simp
  from inst have c2: "''Duplicate field name: '' \<notin> set (errors (validate_schema two_unnamed))"
    by blast
  from inst names have c3:
    "errors (validate_schema (two_unnamed \<lparr> s_fields := [] @ [SchemaField_init [] ''INTEGER''] @ [id_field] \<rparr>))
       = errors (validate_schema (two_unnamed \<lparr> s_fields := [] @ [SchemaField_init [] ''NO_SUCH_TYPE''] @ [id_field] \<rparr>))"
    by blast
  from inst rest have c4: "\<exists>before after.
         errors (validate_schema (two_unnamed \<lparr> s_fields := [] @ [SchemaField_init [] ''NO_SUCH_TYPE''] @ [id_field] \<rparr>))
           = before @ [''All fields must have a name''] @ after
       \<and> errors (validate_schema (two_unnamed \<lparr> s_fields := [] @ [id_field] \<rparr>)) = before @ after"
    by blast
  from unnamed_field_only_missing_name_error
         [of two_unnamed_indexed unnamed_field unnamed_field "[]" "[]" blank_index] ix
  have "''Index '' @ ix_name blank_index @ '' references non-existent field: ''
          \<in> set (errors (validate_schema two_unnamed_indexed))"
    by blast
  then have c5: "''Index by_blank references non-existent field: ''
        \<in> set (errors (validate_schema two_unnamed_indexed))"
    by (simp add: ixn)
  from c1 c2 all c3 c4 c5 show ?thesis by blast
qed

lemma whitelist_keys:
  "map fst valid_types = [RELATIONAL, DOCUMENT, KEY_VALUE, TIME_SERIES, COLUMNAR]"
  by (simp add: valid_types_def)

lemma whitelist_unlisted:
  "schema_type \<notin> {RELATIONAL, DOCUMENT, KEY_VALUE, TIME_SERIES, COLUMNAR} \<Longrightarrow>
   whitelist schema_type = []"
  by (simp add: whitelist_def valid_types_def)

text \<open>
  C7, as the claim states it, fails on a GRAPH schema whose only field has an empty name:
  the field loop leaves that field at the missing-name error, and no invalid-data-type
  error is recorded for its data type \<open>STRING\<close>.
\<close>

theorem unnamed_graph_field_counterexample:
  "s_schema_type graph_unnamed = GRAPH
   \<and> s_fields graph_unnamed = [unnamed_field]
   \<and> f_data_type unnamed_field = ''STRING''
   \<and> \<not> is_valid_data_type ''STRING'' GRAPH
   \<and> errors (validate_schema graph_unnamed) = [''All fields must have a name'']"
  by (simp add: findings_defs validation_sample_defs validation_defs)

text \<open>
  C7, amended. A data type is accepted exactly when its upper-cased form is in the list
  that the table holds for the schema type; the table has the five keys RELATIONAL,
  DOCUMENT, KEY_VALUE, TIME_SERIES and COLUMNAR. For a schema type outside those five
  (GRAPH) the list is empty, no data type is accepted, and every field with a non-empty
  name gets its invalid-data-type error. (A field with an empty name is skipped before
  its data type is looked at.)
\<close>

theorem data_type_whitelist:
  "(is_valid_data_type data_type schema_type \<longleftrightarrow>
      (\<exists>types. map_of valid_types schema_type = Some types \<and> upper data_type \<in> set types))
   \<and> map fst valid_types = [RELATIONAL, DOCUMENT, KEY_VALUE, TIME_SERIES, COLUMNAR]
   \<and> (schema_type \<notin> {RELATIONAL, DOCUMENT, KEY_VALUE, TIME_SERIES, COLUMNAR} \<longrightarrow>
        whitelist schema_type = [] \<and> \<not> is_valid_data_type data_type schema_type)
   \<and> (s_schema_type schema \<notin> {RELATIONAL, DOCUMENT, KEY_VALUE, TIME_SERIES, COLUMNAR}
        \<and> f \<in> set (s_fields schema) \<and> f_name f \<noteq> [] \<longrightarrow>
        ''Invalid data type '' @ f_data_type f @ '' for field '' @ f_name f
          \<in> set (errors (validate_schema schema)))"
proof (intro conjI impI)
  show "is_valid_data_type data_type schema_type \<longleftrightarrow>
      (\<exists>types. map_of valid_types schema_type = Some types \<and> upper data_type \<in> set types)"
    by (cases "map_of valid_types schema_type") (simp_all add: is_valid_data_type_def whitelist_def)
next
  show "map fst valid_types = [RELATIONAL, DOCUMENT, KEY_VALUE, TIME_SERIES, COLUMNAR]"
    by (rule whitelist_keys)
next
  assume "schema_type \<notin> {RELATIONAL, DOCUMENT, KEY_VALUE, TIME_SERIES, COLUMNAR}"
  then show "whitelist schema_type = []" by (rule whitelist_unlisted)
next
  assume "schema_type \<notin> {RELATIONAL, DOCUMENT, KEY_VALUE, TIME_SERIES, COLUMNAR}"
  then show "\<not> is_valid_data_type data_type schema_type"
    by (simp add: is_valid_data_type_def whitelist_unlisted)
next
  assume a: "s_schema_type schema \<notin> {RELATIONAL, DOCUMENT, KEY_VALUE, TIME_SERIES, COLUMNAR}
        \<and> f \<in> set (s_fields schema) \<and> f_name f \<noteq> []"
  then have "\<not> is_valid_data_type (f_data_type f) (s_schema_type schema)"
    by (simp add: is_valid_data_type_def whitelist_unlisted)
  with a have "''Invalid data type '' @ f_data_type f @ '' for field '' @ f_name f
     \<in> set (loop_findings (s_schema_type schema) {} (s_fields schema))"
    by (intro invalid_type_found) simp_all
  then show "''Invalid data type '' @ f_data_type f @ '' for field '' @ f_name f
          \<in> set (errors (validate_schema schema))"
    by (simp add: validate_schema_errors)
qed

theorem data_type_whitelist_witness:
  "is_valid_data_type ''decimal'' RELATIONAL
   \<and> upper ''decimal'' = ''DECIMAL''
   \<and> \<not> is_valid_data_type ''DECIMAL'' DOCUMENT
   \<and> whitelist GRAPH = []
   \<and> \<not> is_valid_data_type ''DATE'' GRAPH
   \<and> ''Invalid data type DATE for field since'' \<in> set (errors (validate_schema graph_named))"
proof -
  have up: "upper ''decimal'' = ''DECIMAL''"
    by (simp add: validation_defs)
  have rel: "map_of valid_types RELATIONAL = Some
        [''INTEGER'', ''BIGINT'', ''SMALLINT'', ''DECIMAL'', ''NUMERIC'', ''REAL'', ''DOUBLE'',
         ''VARCHAR'', ''CHAR'', ''TEXT'', ''BOOLEAN'', ''DATE'', ''TIME'', ''TIMESTAMP'',
         ''UUID'', ''JSON'', ''JSONB'', ''ARRAY'']"
    by (simp add: valid_types_def)
  have doc: "map_of valid_types DOCUMENT = Some
        [''STRING'', ''NUMBER'', ''BOOLEAN'', ''DATE'', ''OBJECT'', ''ARRAY'', ''NULL'']"
    by (simp add: valid_types_def)
  have up2: "upper ''DECIMAL'' = ''DECIMAL''"
    by (simp add: validation_defs)
  have "is_valid_data_type ''decimal'' RELATIONAL \<longleftrightarrow>
      (\<exists>types. map_of valid_types RELATIONAL = Some types \<and> upper ''decimal'' \<in> set types)"
    using data_type_whitelist [of "''decimal''" RELATIONAL graph_named "SchemaField_init ''since'' ''DATE''"]
    by blast
  then have w1: "is_valid_data_type ''decimal'' RELATIONAL" by (simp add: rel up)
  have "is_valid_data_type ''DECIMAL'' DOCUMENT \<longleftrightarrow>
      (\<exists>types. map_of valid_types DOCUMENT = Some types \<and> upper ''DECIMAL'' \<in> set types)"
    using data_type_whitelist [of "''DECIMAL''" DOCUMENT graph_named "SchemaField_init ''since'' ''DATE''"]
    by blast
  then have w2: "\<not> is_valid_data_type ''DECIMAL'' DOCUMENT" by (simp add: doc up2)
  have unlisted: "GRAPH \<notin> {RELATIONAL, DOCUMENT, KEY_VALUE, TIME_SERIES, COLUMNAR}" by simp
  from data_type_whitelist [of "''DATE''" GRAPH graph_named "SchemaField_init ''since'' ''DATE''"]
    unlisted
  have w3: "whitelist GRAPH = [] \<and> \<not> is_valid_data_type ''DATE'' GRAPH" by blast
  have g: "s_schema_type graph_named \<notin> {RELATIONAL, DOCUMENT, KEY_VALUE, TIME_SERIES, COLUMNAR}
        \<and> SchemaField_init ''since'' ''DATE'' \<in> set (s_fields graph_named)
        \<and> f_name (SchemaField_init ''since'' ''DATE'') \<noteq> []"
    by (simp add: graph_named_def Schema_init_def SchemaField_init_def)
  have fs: "f_data_type (SchemaField_init ''since'' ''DATE'') = ''DATE''"
      "f_name (SchemaField_init ''since'' ''DATE'') = ''since''"
    by (simp_all add: SchemaField_init_def)
  from data_type_whitelist [of "''DATE''" GRAPH graph_named "SchemaField_init ''since'' ''DATE''"] g
  have "''Invalid data type '' @ f_data_type (SchemaField_init ''since'' ''DATE'')
          @ '' for field '' @ f_name (SchemaField_init ''since'' ''DATE'')
          \<in> set (errors (validate_schema graph_named))"
    by blast
  then have w4: "''Invalid data type DATE for field since'' \<in> set (errors (validate_schema graph_named))"
    by (simp add: fs)
  from w1 up w2 w3 w4 show ?thesis by blast
qed

section \<open>Properties of the schema hash and of the store operations\<close>

text \<open>
  C9. The hash does not depend on the \<open>metadata\<close> map: a schema and the same schema with
  any other metadata have the same hash. What is hashed is the dictionary of the
  thirteen other attributes of the schema.
\<close>

theorem generate_schema_hash_ignores_metadata:
  "generate_schema_hash env (schema \<lparr> s_metadata := metadata \<rparr>) = generate_schema_hash env schema
   \<and> map fst (AList.delete ''metadata'' (asdict_schema schema))
       = [''name'', ''version'', ''schema_type'', ''description'', ''fields'', ''indexes'',
          ''relationships'', ''business_owner'', ''technical_owner'', ''classification'',
          ''retention_policy'', ''backup_policy'', ''tags'']
   \<and> generate_schema_hash env schema
       = sha256_hexdigest env (json_dumps env (PDict (AList.delete ''metadata'' (asdict_schema schema))))"
  by (simp add: generate_schema_hash_def asdict_schema_def)

lemma definitions_save_version [simp]:
  "definitions (save_version store n v) = definitions store"
  by (simp add: save_version_def)

lemma definitions_create_governance_record [simp]:
  "definitions (create_governance_record env k store schema) = definitions store"
  by (simp add: create_governance_record_def Let_def)

lemma create_schema_rejected:
  "\<not> valid (validate_schema schema) \<or> schema_exists store (s_name schema) \<Longrightarrow>
   create_schema env store schema = (False, store)"
  by (auto simp: create_schema_def Let_def)

lemma create_schema_created:
  "create_schema env store schema = (True, store1) \<Longrightarrow>
   definitions store1 = (definitions store)(s_name schema \<mapsto>
     schema_document schema (generate_schema_hash env schema)
       (Some (isoformat env (utcnow env 0))) None)"
  by (auto simp: create_schema_def Let_def split: if_splits)

text \<open>
  C5. \<open>create_schema\<close> returns False and leaves the store as it is when the schema fails
  validation or a schema of its name exists. After a call that created a schema, a
  second call with a schema of the same name, whatever else it holds, returns False and
  leaves the store, and with it the document written by the first call, as it is.
\<close>

theorem create_schema_no_write_on_failure:
  "(\<not> valid (validate_schema schema) \<or> schema_exists store (s_name schema) \<longrightarrow>
      create_schema env store schema = (False, store))
   \<and> (create_schema env store first = (True, store1) \<and> s_name second = s_name first \<longrightarrow>
      create_schema env' store1 second = (False, store1)
      \<and> definitions store1 (s_name first)
          = Some (schema_document first (generate_schema_hash env first)
                    (Some (isoformat env (utcnow env 0))) None))"
proof (intro conjI impI)
  assume "\<not> valid (validate_schema schema) \<or> schema_exists store (s_name schema)"
  then show "create_schema env store schema = (False, store)"
    by (rule create_schema_rejected)
next
  assume a: "create_schema env store first = (True, store1) \<and> s_name second = s_name first"
  then have defs: "definitions store1 = (definitions store)(s_name first \<mapsto>
     schema_document first (generate_schema_hash env first)
       (Some (isoformat env (utcnow env 0))) None)"
    by (simp add: create_schema_created)
  then show doc: "definitions store1 (s_name first)
          = Some (schema_document first (generate_schema_hash env first)
                    (Some (isoformat env (utcnow env 0))) None)"
    by simp
  then have "schema_exists store1 (s_name second)"
    using a by (simp add: schema_exists_def)
  then show "create_schema env' store1 second = (False, store1)"
    by (simp add: create_schema_rejected)
qed

lemma orders_v1_valid: "valid (validate_schema orders_v1)"
  by (simp add: validate_schema_valid findings_defs sample_schema_defs validation_defs)

theorem create_schema_no_write_on_failure_witness:
  "s_name orders_v1 = ''orders'' \<and> s_name orders_not_null = ''orders''
   \<and> fst (create_schema sample_env empty_store orders_v1)
   \<and> create_schema sample_env (snd (create_schema sample_env empty_store orders_v1)) orders_not_null
       = (False, snd (create_schema sample_env empty_store orders_v1))
   \<and> definitions (snd (create_schema sample_env empty_store orders_v1)) ''orders''
       = Some (schema_document orders_v1 (generate_schema_hash sample_env orders_v1)
                 (Some (isoformat sample_env (utcnow sample_env 0))) None)
   \<and> create_schema sample_env empty_store two_ids = (False, empty_store)"
proof -
  let ?store1 = "snd (create_schema sample_env empty_store orders_v1)"
  have names: "s_name orders_v1 = ''orders''" "s_name orders_not_null = ''orders''"
    by (simp_all add: sample_schema_defs)
  have fresh: "\<not> schema_exists empty_store (s_name orders_v1)"
    by (simp add: schema_exists_def empty_store_def)
  have ok: "fst (create_schema sample_env empty_store orders_v1)"
    using orders_v1_valid fresh by (simp add: create_schema_def Let_def)
  then have first: "create_schema sample_env empty_store orders_v1 = (True, ?store1)"
    by (simp add: prod_eq_iff)
  have bad: "\<not> valid (validate_schema two_ids)"
    by (simp add: validate_schema_valid findings_defs validation_sample_defs validation_defs)
  from create_schema_no_write_on_failure
         [of orders_v1 empty_store sample_env orders_v1 ?store1 orders_not_null sample_env]
       first names
  have second: "create_schema sample_env ?store1 orders_not_null = (False, ?store1)
      \<and> definitions ?store1 (s_name orders_v1)
          = Some (schema_document orders_v1 (generate_schema_hash sample_env orders_v1)
                    (Some (isoformat sample_env (utcnow sample_env 0))) None)"
    by simp
  from create_schema_no_write_on_failure
         [of two_ids empty_store sample_env orders_v1 ?store1 orders_not_null sample_env] bad
  have third: "create_schema sample_env empty_store two_ids = (False, empty_store)"
    by blast
  from names ok second third show ?thesis by simp
qed

section \<open>Properties of the migration generator and of update_schema\<close>

lemmas string_defs = split_def index_def

lemmas more_sample_defs =
  orders_retyped_def version_2_def sample_env_def empty_store_def definition_file_def
  orders_store_def notes_v1_def notes_v2_def notes_store_def

lemma detect_orders_retyped:
  "detect_breaking_changes orders_v1 orders_retyped
     = [''Changed data type for field amount: DECIMAL -> INTEGER'']"
  by (simp add: detector_defs sample_schema_defs more_sample_defs)

lemma migration_lines_retyped:
  "migration_lines schema_name ''Changed data type for field amount: DECIMAL -> INTEGER''
     = Inr [''-- Changed data type for field amount: DECIMAL -> INTEGER'',
            ''ALTER TABLE '' @ schema_name @ '' ALTER COLUMN amount: TYPE INTEGER;'']"
  by (simp add: migration_lines_def string_defs)

text \<open>
  C3 at a type change. For the entry
  \<open>"Changed data type for field amount: DECIMAL -> INTEGER"\<close> the claim has the statement
  \<open>ALTER TABLE orders ALTER COLUMN amount TYPE INTEGER;\<close>. The sixth blank-separated token
  of the entry is \<open>amount:\<close>, with the colon of the message, and the generated statement
  is \<open>ALTER TABLE orders ALTER COLUMN amount: TYPE INTEGER;\<close>: the script does not hold the
  statement of the claim.
\<close>

theorem migration_type_change_keeps_colon:
  "detect_breaking_changes orders_v1 orders_retyped
     = [''Changed data type for field amount: DECIMAL -> INTEGER'']
   \<and> migration_sql sample_env ''orders'' orders_v1 orders_retyped version_2
     = Inr [''-- Migration for orders to version 2.0'',
            ''-- Generated at: 2024-01-01T00:00:00'',
            ''-- Description: Second version'',
            [],
            ''-- Changed data type for field amount: DECIMAL -> INTEGER'',
            ''ALTER TABLE orders ALTER COLUMN amount: TYPE INTEGER;'',
            [],
            ''-- End of migration'']"
  by (simp add: migration_sql_def detect_orders_retyped migration_lines_retyped
        sample_env_def version_2_def)

text \<open>The other two kinds on the sample schemas: one DROP COLUMN statement, and a comment only.\<close>

lemma migration_removed_and_nullable_examples:
  "migration_body ''orders'' (detect_breaking_changes orders_v1 orders_no_amount)
     = Inr [''-- Removed field: amount'', ''ALTER TABLE orders DROP COLUMN amount;'']"
  "migration_body ''orders'' (detect_breaking_changes orders_v1 orders_not_null)
     = Inr [''-- Field amount changed from nullable to non-nullable'']"
  by (simp_all add: detector_defs sample_schema_defs migration_lines_def string_defs)

lemma update_schema_rejected:
  "\<not> schema_exists store (s_name schema) \<or> get_schema store (s_name schema) = None
     \<or> \<not> valid (validate_schema schema) \<Longrightarrow>
   update_schema env store schema version_info = (False, version_info, store)"
  by (auto simp: update_schema_def Let_def split: option.splits)

text \<open>
  What \<open>update_schema\<close> does once the schema exists, loads and the new schema is valid:
  the definition file is overwritten and the version record appended whatever the
  detector returns; the result is False only if building the migration script raised.
\<close>

lemma update_schema_applied:
  assumes "schema_exists store (s_name schema)"
    and "get_schema store (s_name schema) = Some current_schema"
    and "valid (validate_schema schema)"
    and "update_schema env store schema version_info = (ok, version_info1, store1)"
  shows "version_info1 = version_info
           \<lparr> v_breaking_changes := detect_breaking_changes current_schema schema \<noteq> [] \<rparr>"
    and "definitions store1 = (definitions store)(s_name schema \<mapsto>
           schema_document schema (generate_schema_hash env schema)
             None (Some (isoformat env (utcnow env 0))))"
    and "versions store1 = (versions store)(s_name schema \<mapsto>
           (case versions store (s_name schema) of None \<Rightarrow> [] | Some vs \<Rightarrow> vs) @ [version_info1])"
    and "governance store1 = governance store"
    and "detect_breaking_changes current_schema schema = [] \<Longrightarrow>
           ok \<and> migrations store1 = migrations store"
    and "detect_breaking_changes current_schema schema \<noteq> [] \<Longrightarrow>
           (case migration_sql env (s_name schema) current_schema schema version_info1 of
              Inl e \<Rightarrow> \<not> ok \<and> migrations store1 = migrations store
            | Inr lines \<Rightarrow> ok \<and> migrations store1 = (migrations store)
                (migration_file (s_name schema) version_info1 \<mapsto> join [CHR 0x0A] lines))"
  using assms
  by (auto simp: update_schema_def Let_def save_version_def generate_migration_def
           split: if_splits sum.splits)

lemma SchemaType_written_not_loadable:
  "SchemaType_of_value (''SchemaType.'' @ SchemaType_name t) = Inl ValueError"
  by (cases t) (simp_all add: SchemaType_of_value_def SchemaType_name_def SchemaType_value_def)

text \<open>
  A definition file written by \<open>create_schema\<close> holds \<open>"SchemaType.<NAME>"\<close>, which is not the
  value of a member of SchemaType: \<open>get_schema\<close> does not load it, and \<open>update_schema\<close> on
  such a file returns False and changes nothing.
\<close>

lemma get_schema_after_create_schema:
  assumes "create_schema env store schema = (True, store1)"
  shows "get_schema store1 (s_name schema) = None"
    and "s_name schema' = s_name schema \<Longrightarrow>
         update_schema env' store1 schema' version_info = (False, version_info, store1)"
proof -
  from assms have "definitions store1 (s_name schema)
      = Some (schema_document schema (generate_schema_hash env schema)
                (Some (isoformat env (utcnow env 0))) None)"
    by (simp add: create_schema_created)
  then obtain doc where doc: "definitions store1 (s_name schema) = Some doc"
    and ty: "d_schema_type doc = ''SchemaType.'' @ SchemaType_name (s_schema_type schema)"
    by (simp add: schema_document_def)
  have "SchemaType_of_value (d_schema_type doc) = Inl ValueError"
    unfolding ty by (rule SchemaType_written_not_loadable)
  then show none: "get_schema store1 (s_name schema) = None"
    by (simp add: get_schema_def doc)
  assume "s_name schema' = s_name schema"
  with none show "update_schema env' store1 schema' version_info = (False, version_info, store1)"
    by (simp add: update_schema_rejected)
qed

text \<open>
  An ordinary update with a breaking change, for comparison: the stored \<open>orders\<close> schema
  is replaced by the one whose \<open>amount\<close> is not nullable; the call returns True, flags the
  version record and writes the migration file.
\<close>

lemma update_schema_orders_example:
  "fst (update_schema sample_env orders_store orders_not_null version_2)
   \<and> v_breaking_changes (fst (snd (update_schema sample_env orders_store orders_not_null version_2)))
   \<and> migrations (snd (snd (update_schema sample_env orders_store orders_not_null version_2)))
        ''orders_2.0_migration.sql''
      = Some (join [CHR 0x0A]
          [''-- Migration for orders to version 2.0'',
           ''-- Generated at: 2024-01-01T00:00:00'',
           ''-- Description: Second version'',
           [],
           ''-- Field amount changed from nullable to non-nullable'',
           [],
           ''-- End of migration''])"
proof -
  have n: "s_name orders_not_null = ''orders''" by (simp add: sample_schema_defs)
  have ex: "schema_exists orders_store ''orders''"
    by (simp add: schema_exists_def orders_store_def empty_store_def)
  have v: "valid (validate_schema orders_not_null)"
    by (simp add: validate_schema_valid findings_defs sample_schema_defs validation_defs)
  have g: "get_schema orders_store ''orders''
     = Some (orders_v1 \<lparr> s_fields := map field_document (s_fields orders_v1) \<rparr>)"
    by (simp add: get_schema_def more_sample_defs schema_document_def Schema_init_def
          orders_v1_def SchemaType_of_value_def SchemaType_value_def
          DataClassification_of_value_def DataClassification_value_def)
  have d: "detect_breaking_changes
        (orders_v1 \<lparr> s_fields := map field_document (s_fields orders_v1) \<rparr>) orders_not_null
     = [''Field amount changed from nullable to non-nullable'']"
    by (simp add: detector_defs sample_schema_defs field_document_def)
  have l: "migration_lines ''orders'' ''Field amount changed from nullable to non-nullable''
     = Inr [''-- Field amount changed from nullable to non-nullable'']"
    by (simp add: migration_lines_def)
  have m: "migration_sql sample_env ''orders''
        (orders_v1 \<lparr> s_fields := map field_document (s_fields orders_v1) \<rparr>) orders_not_null
        (version_2 \<lparr> v_breaking_changes := True \<rparr>)
     = Inr [''-- Migration for orders to version 2.0'',
           ''-- Generated at: 2024-01-01T00:00:00'',
           ''-- Description: Second version'',
           [],
           ''-- Field amount changed from nullable to non-nullable'',
           [],
           ''-- End of migration'']"
    by (simp add: migration_sql_def d l sample_env_def version_2_def)
  have f: "migration_file ''orders'' (version_2 \<lparr> v_breaking_changes := True \<rparr>)
     = ''orders_2.0_migration.sql''"
    by (simp add: migration_file_def version_2_def)
  show ?thesis
    unfolding update_schema_def n
    by (simp add: ex g v d m f generate_migration_def save_version_def Let_def)
qed

lemma notes_v2_valid: "valid (validate_schema notes_v2)"
  by (simp add: validate_schema_valid findings_defs sample_schema_defs more_sample_defs
        validation_defs)

lemma get_schema_notes:
  "get_schema notes_store ''notes''
     = Some (notes_v1 \<lparr> s_fields := map field_document (s_fields notes_v1) \<rparr>)"
  by (simp add: get_schema_def more_sample_defs schema_document_def Schema_init_def
        SchemaType_of_value_def SchemaType_value_def
        DataClassification_of_value_def DataClassification_value_def)

lemma detect_notes:
  "detect_breaking_changes (notes_v1 \<lparr> s_fields := map field_document (s_fields notes_v1) \<rparr>) notes_v2
     = [''Field Removed field changed from nullable to non-nullable'']"
  by (simp add: detector_defs sample_schema_defs more_sample_defs field_document_def)

lemma migration_lines_notes:
  "migration_lines schema_name ''Field Removed field changed from nullable to non-nullable''
     = Inl IndexError"
  by (simp add: migration_lines_def string_defs)

text \<open>
  C4 at a field named \<open>Removed field\<close>. The stored schema \<open>notes\<close> has the nullable field
  \<open>Removed field\<close>; the new schema is valid and makes it non-nullable, which is the one
  breaking change. The definition file is overwritten and the version record, flagged
  as breaking, is appended; then the migration generator finds \<open>"Removed field"\<close> in the
  entry \<open>"Field Removed field changed from nullable to non-nullable"\<close>, splits it on
  \<open>": "\<close> and raises IndexError; \<open>update_schema\<close> returns False and no migration file is
  written.
\<close>

theorem update_schema_fails_on_breaking_change:
  "schema_exists notes_store (s_name notes_v2)
   \<and> valid (validate_schema notes_v2)
   \<and> (\<exists>current_schema. get_schema notes_store (s_name notes_v2) = Some current_schema
        \<and> detect_breaking_changes current_schema notes_v2
            = [''Field Removed field changed from nullable to non-nullable''])
   \<and> update_schema sample_env notes_store notes_v2 version_2
       = (False,
          version_2 \<lparr> v_breaking_changes := True \<rparr>,
          notes_store
            \<lparr> definitions := [''notes'' \<mapsto>
                 schema_document notes_v2 ''e3b0c442'' None (Some ''2024-01-01T00:00:00'')],
              versions := [''notes'' \<mapsto> [version_2 \<lparr> v_breaking_changes := True \<rparr>]] \<rparr>)"
proof -
  have n: "s_name notes_v2 = ''notes''" by (simp add: more_sample_defs Schema_init_def)
  have ex: "schema_exists notes_store ''notes''"
    by (simp add: schema_exists_def notes_store_def empty_store_def)
  have h: "generate_schema_hash sample_env notes_v2 = ''e3b0c442''"
    by (simp add: generate_schema_hash_def sample_env_def)
  have m: "migration_sql sample_env ''notes''
        (notes_v1 \<lparr> s_fields := map field_document (s_fields notes_v1) \<rparr>) notes_v2
        (version_2 \<lparr> v_breaking_changes := True \<rparr>) = Inl IndexError"
    by (simp add: migration_sql_def detect_notes migration_lines_notes)
  have u: "update_schema sample_env notes_store notes_v2 version_2
       = (False,
          version_2 \<lparr> v_breaking_changes := True \<rparr>,
          notes_store
            \<lparr> definitions := [''notes'' \<mapsto>
                 schema_document notes_v2 ''e3b0c442'' None (Some ''2024-01-01T00:00:00'')],
              versions := [''notes'' \<mapsto> [version_2 \<lparr> v_breaking_changes := True \<rparr>]] \<rparr>)"
    unfolding update_schema_def n
    by (simp add: ex get_schema_notes notes_v2_valid detect_notes h m generate_migration_def
          save_version_def Let_def)
       (simp add: notes_store_def empty_store_def sample_env_def)
  from ex notes_v2_valid get_schema_notes detect_notes u show ?thesis
    by (simp add: n)
qed

section \<open>Properties of the search scorer\<close>

lemma startswith_iff: "startswith s p \<longleftrightarrow> (\<exists>post. s = p @ post)"
  by (induction s p rule: startswith.induct) auto

text \<open>\<^const>\<open>py_in\<close> is the substring test.\<close>

lemma py_in_iff: "py_in sub s \<longleftrightarrow> (\<exists>pre post. s = pre @ sub @ post)"
proof (induction s)
  case Nil
  then show ?case by auto
next
  case (Cons c cs)
  show ?case
  proof
    assume "py_in sub (c # cs)"
    then consider "startswith (c # cs) sub" | "py_in sub cs" by auto
    then show "\<exists>pre post. c # cs = pre @ sub @ post"
    proof cases
      case 1
      then obtain post where "c # cs = sub @ post" by (auto simp: startswith_iff)
      then have "c # cs = [] @ sub @ post" by simp
      then show ?thesis by blast
    next
      case 2
      then obtain pre post where "cs = pre @ sub @ post" using Cons.IH by auto
      then have "c # cs = (c # pre) @ sub @ post" by simp
      then show ?thesis by blast
    qed
  next
    assume "\<exists>pre post. c # cs = pre @ sub @ post"
    then obtain pre post where eq: "c # cs = pre @ sub @ post" by auto
    show "py_in sub (c # cs)"
    proof (cases pre)
      case Nil
      with eq have "startswith (c # cs) sub" by (auto simp: startswith_iff)
      then show ?thesis by simp
    next
      case (Cons d pre')
      with eq have "cs = pre' @ sub @ post" by simp
      then have "py_in sub cs" using Cons.IH by blast
      then show ?thesis by simp
    qed
  qed
qed

lemma find_Some_ex: "(\<exists>x. find P xs = Some x) \<longleftrightarrow> (\<exists>x \<in> set xs. P x)"
  by (induction xs) auto

lemma calculate_search_score_value:
  "fst (calculate_search_score str r q) =
       (if py_in (lower q) (lower (r_name r)) then 10 else 0)
     + (if \<exists>d. r_description r = Some d \<and> d \<noteq> [] \<and> py_in (lower q) (lower d) then 5 else 0)
     + (if \<exists>tags. r_tags r = Some tags \<and> (\<exists>tag \<in> set tags. py_in (lower q) (lower tag))
        then 3 else 0)
     + (if \<exists>metadata. r_metadata r = Some metadata
              \<and> (\<exists>(key, attr) \<in> set metadata. py_in (lower q) (lower (str (a_value attr))))
        then 2 else 0)
     + (if py_in (lower q) (lower (r_system r)) then 1 else 0)"
proof -
  have md: "(\<exists>(key, attr) \<in> set metadata. py_in (lower q) (lower (str (a_value attr))))
      \<longleftrightarrow> find (\<lambda>(key, attr). py_in (lower q) (lower (str (a_value attr)))) metadata \<noteq> None"
    for metadata :: "(string \<times> 'a MetadataAttribute) list"
    using find_Some_ex [of "\<lambda>(key, attr). py_in (lower q) (lower (str (a_value attr)))" metadata]
    by auto
  show ?thesis
    unfolding calculate_search_score_def Let_def
    by (cases "r_description r"; cases "r_tags r"; cases "r_metadata r")
       (auto simp: list_ex_iff md split: prod.splits option.splits)
qed

lemma search_one_result:
  "res \<in> set (search_one str q filters r) \<Longrightarrow>
   sr_resource res = r \<and> sr_score res = fst (calculate_search_score str r q) \<and> 0 < sr_score res"
  by (auto simp: search_one_def Let_def case_prod_beta split: if_splits)

lemma search_one_found:
  "set (map sr_resource (search_one str q filters r)) =
     (if (filters = None \<or> filters = Some [] \<or> matches_filters r (the filters))
          \<and> 0 < fst (calculate_search_score str r q)
      then {r} else {})"
  by (cases filters) (auto simp: search_one_def Let_def case_prod_beta)

lemma set_slice_to: "set (slice_to xs limit) \<subseteq> set xs"
  by (auto simp: slice_to_def dest: in_set_takeD)

lemma length_search_one: "length (search_one str q filters r) \<le> 1"
  by (simp add: search_one_def Let_def case_prod_beta)

lemma length_concat_search:
  "length (concat (map (search_one str q filters) rs)) \<le> length rs"
proof (induction rs)
  case Nil
  then show ?case by simp
next
  case (Cons r rs)
  then show ?case using length_search_one [of str q filters r] by simp
qed

lemma search_resources_slice:
  "search_resources str rs q filters limit =
     slice_to (sort_key (\<lambda>r. - sr_score r) (concat (map (search_one str q filters) rs))) limit"
  by (simp add: search_resources_def Let_def)

lemma search_resources_untruncated:
  "search_resources str rs q filters (int (length rs)) =
     sort_key (\<lambda>r. - sr_score r) (concat (map (search_one str q filters) rs))"
  using length_concat_search [of str q filters rs]
  by (simp add: search_resources_slice slice_to_def)

lemma sorted_wrt_slice_to: "sorted_wrt R xs \<Longrightarrow> sorted_wrt R (slice_to xs limit)"
  by (simp add: slice_to_def sorted_wrt_take)

lemma search_resources_sorted:
  "sorted_wrt (\<lambda>a b. sr_score a \<ge> sr_score b) (search_resources str rs q filters limit)"
proof -
  let ?all = "sort_key (\<lambda>r. - sr_score r) (concat (map (search_one str q filters) rs))"
  have "sorted (map (\<lambda>r. - sr_score r) ?all)" by (rule sorted_sort_key)
  then have "sorted_wrt (\<lambda>a b. sr_score a \<ge> sr_score b) ?all"
    by (simp add: sorted_map)
  then show ?thesis
    unfolding search_resources_slice by (rule sorted_wrt_slice_to)
qed

text \<open>
  C8. The score of a resource is the sum of 10 if the lower-cased query is a substring
  of the lower-cased name, 5 if the resource has a (non-empty) description of which it
  is a substring, 3 if it is a substring of some tag, 2 if it is a substring of
  \<open>str\<close> of some metadata attribute value, and 1 if it is a substring of the system.
  Every search result is a catalog resource with its score, which is positive; every
  catalog resource that passes the filters and scores above 0 is among the untruncated
  results; the results are in descending order of score; and for a limit that is not
  negative they are the first \<open>limit\<close> of the untruncated results, so at most \<open>limit\<close>.
  Hence a resource scoring 15 stands before one scoring 3.
\<close>

theorem search_scoring_and_ranking:
  "(fst (calculate_search_score str r q) =
       (if py_in (lower q) (lower (r_name r)) then 10 else 0)
     + (if \<exists>d. r_description r = Some d \<and> d \<noteq> [] \<and> py_in (lower q) (lower d) then 5 else 0)
     + (if \<exists>tags. r_tags r = Some tags \<and> (\<exists>tag \<in> set tags. py_in (lower q) (lower tag))
        then 3 else 0)
     + (if \<exists>metadata. r_metadata r = Some metadata
              \<and> (\<exists>(key, attr) \<in> set metadata. py_in (lower q) (lower (str (a_value attr))))
        then 2 else 0)
     + (if py_in (lower q) (lower (r_system r)) then 1 else 0))
   \<and> (\<forall>res \<in> set (search_resources str rs q filters limit).
        sr_resource res \<in> set rs
        \<and> sr_score res = fst (calculate_search_score str (sr_resource res) q)
        \<and> 0 < sr_score res)
   \<and> set (map sr_resource (search_resources str rs q filters (int (length rs))))
       = {r \<in> set rs. (filters = None \<or> filters = Some [] \<or> matches_filters r (the filters))
                      \<and> 0 < fst (calculate_search_score str r q)}
   \<and> sorted_wrt (\<lambda>a b. sr_score a \<ge> sr_score b) (search_resources str rs q filters limit)
   \<and> (0 \<le> limit \<longrightarrow>
        search_resources str rs q filters limit
          = take (nat limit) (search_resources str rs q filters (int (length rs)))
        \<and> length (search_resources str rs q filters limit) \<le> nat limit)"
proof (intro conjI impI ballI)
  show "fst (calculate_search_score str r q) =
       (if py_in (lower q) (lower (r_name r)) then 10 else 0)
     + (if \<exists>d. r_description r = Some d \<and> d \<noteq> [] \<and> py_in (lower q) (lower d) then 5 else 0)
     + (if \<exists>tags. r_tags r = Some tags \<and> (\<exists>tag \<in> set tags. py_in (lower q) (lower tag))
        then 3 else 0)
     + (if \<exists>metadata. r_metadata r = Some metadata
              \<and> (\<exists>(key, attr) \<in> set metadata. py_in (lower q) (lower (str (a_value attr))))
        then 2 else 0)
     + (if py_in (lower q) (lower (r_system r)) then 1 else 0)"
    by (rule calculate_search_score_value)
next
  fix res assume "res \<in> set (search_resources str rs q filters limit)"
  then have "res \<in> set (concat (map (search_one str q filters) rs))"
    using set_slice_to unfolding search_resources_slice by fastforce
  then obtain r0 where r0: "r0 \<in> set rs" "res \<in> set (search_one str q filters r0)" by auto
  from search_one_result [OF r0(2)] r0(1)
  show "sr_resource res \<in> set rs"
    and "sr_score res = fst (calculate_search_score str (sr_resource res) q)"
    and "0 < sr_score res"
    by simp_all
next
  have "set (map sr_resource (concat (map (search_one str q filters) rs)))
      = (\<Union>r0 \<in> set rs. set (map sr_resource (search_one str q filters r0)))"
    by (simp add: map_concat image_UN)
  also have "\<dots> = {r \<in> set rs. (filters = None \<or> filters = Some [] \<or> matches_filters r (the filters))
                      \<and> 0 < fst (calculate_search_score str r q)}"
    unfolding search_one_found by auto
  finally show "set (map sr_resource (search_resources str rs q filters (int (length rs))))
       = {r \<in> set rs. (filters = None \<or> filters = Some [] \<or> matches_filters r (the filters))
                      \<and> 0 < fst (calculate_search_score str r q)}"
    by (simp add: search_resources_untruncated)
next
  show "sorted_wrt (\<lambda>a b. sr_score a \<ge> sr_score b) (search_resources str rs q filters limit)"
    by (rule search_resources_sorted)
next
  assume "0 \<le> limit"
  then show "search_resources str rs q filters limit
          = take (nat limit) (search_resources str rs q filters (int (length rs)))"
    by (simp add: search_resources_untruncated) (simp add: search_resources_slice slice_to_def)
next
  assume "0 \<le> limit"
  then show "length (search_resources str rs q filters limit) \<le> nat limit"
    by (simp add: search_resources_slice slice_to_def)
qed

lemmas search_sample_defs =
  catalog_def user_orders_def shipments_def invoices_def DataResource_init_def

lemmas lower_defs = lower_def lower_char_def lower_letters_def upper_letters_def

lemma catalog_search:
  "map (\<lambda>res. (r_name (sr_resource res), sr_score res, sr_matching_fields res))
       (search_resources id catalog ''order'' None 20)
     = [(''user_orders'', 15, [''name'', ''description'']), (''shipments'', 3, [''tags''])]"
  by (simp add: search_resources_def search_one_def calculate_search_score_def slice_to_def
        Let_def search_sample_defs lower_defs)

theorem search_scoring_and_ranking_witness:
  "fst (calculate_search_score id user_orders ''order'') = 15
   \<and> fst (calculate_search_score id shipments ''order'') = 3
   \<and> map (\<lambda>res. (r_name (sr_resource res), sr_score res, sr_matching_fields res))
         (search_resources id catalog ''order'' None 20)
       = [(''user_orders'', 15, [''name'', ''description'']), (''shipments'', 3, [''tags''])]
   \<and> sr_resource (hd (search_resources id catalog ''order'' None 20)) \<in> set catalog
   \<and> 0 < sr_score (hd (search_resources id catalog ''order'' None 20))
   \<and> sorted_wrt (\<lambda>a b. sr_score a \<ge> sr_score b) (search_resources id catalog ''order'' None 20)
   \<and> length (search_resources id catalog ''order'' None 1) \<le> 1"
proof -
  note inst = search_scoring_and_ranking [where str = id and q = "''order''" and rs = catalog
      and filters = None]
  have s1: "fst (calculate_search_score id user_orders ''order'') = 15"
    using inst [of user_orders 20] by (simp add: search_sample_defs lower_defs)
  have s2: "fst (calculate_search_score id shipments ''order'') = 3"
    using inst [of shipments 20] by (simp add: search_sample_defs lower_defs)
  have "search_resources id catalog ''order'' None 20 \<noteq> []"
    using catalog_search by auto
  then have "hd (search_resources id catalog ''order'' None 20)
      \<in> set (search_resources id catalog ''order'' None 20)"
    by simp
  with inst [of user_orders 20]
  have all: "sr_resource (hd (search_resources id catalog ''order'' None 20)) \<in> set catalog
      \<and> 0 < sr_score (hd (search_resources id catalog ''order'' None 20))"
    by blast
  have ord: "sorted_wrt (\<lambda>a b. sr_score a \<ge> sr_score b) (search_resources id catalog ''order'' None 20)"
    using inst [of user_orders 20] by blast
  have "(0::int) \<le> 1" by simp
  with inst [of user_orders 1]
  have "length (search_resources id catalog ''order'' None 1) \<le> nat 1" by blast
  then have lim: "length (search_resources id catalog ''order'' None 1) \<le> 1" by simp
  from s1 s2 catalog_search all ord lim show ?thesis by blast
qed

end
